theory Spec2Isabelle
  imports Complex_Main
begin

section \<open>The TIMSS dashboard script (streamlit\_app.py)\<close>

text \<open>
  The program is one Python script. It loads three tables with pandas, on the raw-data
  path merges the achievement and the background table and adds the composite column
  \<open>math_score\<close>, and then renders the page chosen in the sidebar.

  The script's own control flow is embedded line by line. The library calls it makes
  (pandas, seaborn, matplotlib, streamlit) are embedded by their documented behaviour on
  the arguments the script passes; each such definition says which call it stands for.
  Table cells are float64 values: \<open>None\<close> is NaN, and arithmetic is exact (type
  \<open>real\<close>), so rounding is outside the model.
\<close>

subsection \<open>Python strings\<close>

definition py_startswith :: "string \<Rightarrow> string \<Rightarrow> bool" where
  "py_startswith s p = (take (length p) s = p)"

definition py_endswith :: "string \<Rightarrow> string \<Rightarrow> bool" where
  "py_endswith s suf = (length suf \<le> length s \<and> drop (length s - length suf) s = suf)"

text \<open>\<open>s.replace(old, new)\<close> for a non-empty \<open>old\<close>: every non-overlapping
  occurrence, found from the left.\<close>

function replace_from :: "string \<Rightarrow> string \<Rightarrow> string \<Rightarrow> string" where
  "replace_from s old new =
     (if s = [] \<or> old = [] then s
      else if take (length old) s = old then new @ replace_from (drop (length old) s) old new
      else hd s # replace_from (tl s) old new)"
  by pat_completeness auto
termination
  by (relation "measure (\<lambda>(s, old, new). length s)") auto

definition py_replace :: "string \<Rightarrow> string \<Rightarrow> string \<Rightarrow> string" where
  "py_replace s old new =
     (if old = [] then new @ concat (map (\<lambda>c. c # new) s) else replace_from s old new)"

subsection \<open>Tables\<close>

text \<open>
  A DataFrame is held column by column, as pandas holds it: the number of rows (the
  index) and the named columns in order. A frame with no column still has its rows.
\<close>

type_synonym cell = "real option"

record frame =
  nrows :: nat
  cols :: "(string \<times> cell list) list"

definition columns :: "frame \<Rightarrow> string list" where
  "columns df = map fst (cols df)"

definition column :: "frame \<Rightarrow> string \<Rightarrow> cell list" where
  "column df c = (case map_of (cols df) c of Some vs \<Rightarrow> vs | None \<Rightarrow> [])"

text \<open>What every table read from a file satisfies: column names are unique and every
  column has one cell per row.\<close>

definition wf_frame :: "frame \<Rightarrow> bool" where
  "wf_frame df = (distinct (columns df) \<and> list_all (\<lambda>cv. length (snd cv) = nrows df) (cols df))"

datatype exn = KeyError | ValueError | IndexError | MergeError | TypeError | AttributeError

subsection \<open>What the script does not decide\<close>

text \<open>
  Two things are decided inside the libraries and not by the script, and are parameters
  of the embedding.
  \<^item> The float64 arithmetic. \<open>mean64\<close> is the mean numpy computes for a non-empty
    list of numbers (sum, then division, each rounded to float64) and \<open>std64\<close> the
    sample standard deviation of two or more numbers. The numbers of a table are finite;
    arithmetic that overflows is outside the embedding.
  \<^item> Whether a plotting call draws its data or raises. \<open>draws kind data\<close> says that
    the call for a chart of that kind accepts the data columns it is given; a call that
    does not accept them raises \<open>ValueError\<close> (as seaborn does for a column without
    a valid observation).
  A property stated for a \<open>lib\<close> holds for all values of the parameters; the
  examples are evaluated with \<open>lib_exact\<close>.
\<close>

datatype chart = Histogram | Pie | Boxplot | Barplot

record lib =
  mean64 :: "real list \<Rightarrow> real"
  std64 :: "real list \<Rightarrow> real"
  draws :: "chart \<Rightarrow> cell list list \<Rightarrow> bool"

text \<open>The parameters without rounding and without a failing plot: the float64
  results are these whenever the exact results are float64 numbers, as in the examples
  below.\<close>

definition lib_exact :: lib where
  "lib_exact =
     \<lparr> mean64 = (\<lambda>xs. sum_list xs / real (length xs)),
       std64 = (\<lambda>xs. sqrt (sum_list (map (\<lambda>x. (x - sum_list xs / real (length xs))\<^sup>2) xs)
                           / real (length xs - 1))),
       draws = (\<lambda>kind data. True) \<rparr>"

subsection \<open>The pandas calls of the raw-data path\<close>

text \<open>
  \<open>pd.merge(left, right, on=keys, how="inner", suffixes=(ls, rs))\<close>.
  \<^item> \<open>on\<close> is used as given whenever it is not \<open>None\<close>; the default (the columns
    common to both frames) is taken only for \<open>on=None\<close>. An empty list leaves the
    join without a key array and pandas raises when it reads the first one
    (\<open>IndexError\<close> in pandas 2; older releases raise \<open>ValueError\<close> at the same place).
  \<^item> A key that is not a column raises \<open>KeyError\<close>.
  \<^item> The result has the left columns in order, then the right columns that are not
    keys. A suffix is added only to a name that occurs on both sides and is not a key.
    Names that the suffixes make equal on one side raise \<open>MergeError\<close>.
  \<^item> The rows are the pairs of a left and a right row that agree on every key
    (NaN keys agree with each other), in the order of the left rows. Nothing checks
    that a key value occurs once.
\<close>

definition key_match :: "frame \<Rightarrow> frame \<Rightarrow> string list \<Rightarrow> nat \<Rightarrow> nat \<Rightarrow> bool" where
  "key_match left right keys i j = list_all (\<lambda>k. column left k ! i = column right k ! j) keys"

definition join_pairs :: "frame \<Rightarrow> frame \<Rightarrow> string list \<Rightarrow> (nat \<times> nat) list" where
  "join_pairs left right keys =
     concat (map (\<lambda>i. map (Pair i) (filter (key_match left right keys i) [0..<nrows right]))
                 [0..<nrows left])"

definition overlapping :: "frame \<Rightarrow> frame \<Rightarrow> string list \<Rightarrow> string \<Rightarrow> bool" where
  "overlapping left right keys c =
     (c \<in> set (columns left) \<and> c \<in> set (columns right) \<and> c \<notin> set keys)"

definition suffixed :: "frame \<Rightarrow> frame \<Rightarrow> string list \<Rightarrow> string \<Rightarrow> string \<Rightarrow> string" where
  "suffixed left right keys suf c = (if overlapping left right keys c then c @ suf else c)"

definition pd_merge :: "frame \<Rightarrow> frame \<Rightarrow> string list \<Rightarrow> string \<Rightarrow> string \<Rightarrow> exn + frame" where
  "pd_merge left right keys lsuf rsuf =
     (if keys = [] then Inl IndexError
      else if \<not> list_all (\<lambda>k. k \<in> set (columns left) \<and> k \<in> set (columns right)) keys
        then Inl KeyError
      else
        let rcols = filter (\<lambda>cv. fst cv \<notin> set keys) (cols right);
            llabels = map (suffixed left right keys lsuf) (columns left);
            rlabels = map (suffixed left right keys rsuf) (map fst rcols);
            pairs = join_pairs left right keys
        in if \<not> distinct llabels \<or> \<not> distinct rlabels then Inl MergeError
           else Inr \<lparr> nrows = length pairs,
                      cols = zip llabels (map (\<lambda>cv. map (\<lambda>p. snd cv ! fst p) pairs) (cols left))
                           @ zip rlabels (map (\<lambda>cv. map (\<lambda>p. snd cv ! snd p) pairs) rcols) \<rparr>)"

text \<open>\<open>df[names]\<close> with a list of names: a new frame with the named columns, every
  column of that name for each, and \<open>KeyError\<close> when a name is no column.\<close>

definition getitem_list :: "frame \<Rightarrow> string list \<Rightarrow> exn + frame" where
  "getitem_list df names =
     (if \<not> list_all (\<lambda>n. n \<in> set (columns df)) names then Inl KeyError
      else Inr \<lparr> nrows = nrows df,
                 cols = concat (map (\<lambda>n. filter (\<lambda>cv. fst cv = n) (cols df)) names) \<rparr>)"

text \<open>The mean pandas computes with its default \<open>skipna=True\<close>: over the values
  that are not NaN, and NaN when there is none.\<close>

definition present :: "cell list \<Rightarrow> real list" where
  "present vs = map the (filter (\<lambda>v. v \<noteq> None) vs)"

definition nanmean :: "lib \<Rightarrow> cell list \<Rightarrow> cell" where
  "nanmean lib vs = (if present vs = [] then None else Some (mean64 lib (present vs)))"

definition row_cells :: "frame \<Rightarrow> nat \<Rightarrow> cell list" where
  "row_cells df i = map (\<lambda>cv. snd cv ! i) (cols df)"

text \<open>\<open>df.mean(axis=1)\<close>: one value per row, also for a frame without columns.\<close>

definition mean_axis1 :: "lib \<Rightarrow> frame \<Rightarrow> cell list" where
  "mean_axis1 lib df = map (\<lambda>i. nanmean lib (row_cells df i)) [0..<nrows df]"

text \<open>\<open>df[name] = series\<close>: overwrites the column of that name, or appends a new
  last column.\<close>

definition setitem :: "frame \<Rightarrow> string \<Rightarrow> cell list \<Rightarrow> frame" where
  "setitem df name vs =
     (if name \<in> set (columns df)
      then df\<lparr> cols := map (\<lambda>cv. if fst cv = name then (name, vs) else cv) (cols df) \<rparr>
      else df\<lparr> cols := cols df @ [(name, vs)] \<rparr>)"

subsection \<open>The raw-data path (lines 46 to 61)\<close>

text \<open>
  \<open>common_ids\<close> is the list of a Python set, whose order is arbitrary; the embedding
  takes the order of the achievement table's columns. The merge depends on the key
  list only through its set of names (lemma \<open>pd_merge_key_set\<close>).
\<close>

definition common_ids :: "frame \<Rightarrow> frame \<Rightarrow> string list" where
  "common_ids df_ach df_bg = filter (\<lambda>c. c \<in> set (columns df_bg)) (remdups (columns df_ach))"

definition id_cols :: "frame \<Rightarrow> frame \<Rightarrow> string list" where
  "id_cols df_ach df_bg = filter (\<lambda>c. py_startswith c ''ID'') (common_ids df_ach df_bg)"

definition merge_step :: "frame \<Rightarrow> frame \<Rightarrow> exn + frame" where
  "merge_step df_ach df_bg = pd_merge df_ach df_bg (id_cols df_ach df_bg) ''_ach'' ''_bg''"

definition math_vars :: "frame \<Rightarrow> string list" where
  "math_vars df_ach = filter (\<lambda>c. py_startswith c ''BSMMAT'') (columns df_ach)"

definition math_vars_merged :: "frame \<Rightarrow> string list" where
  "math_vars_merged df_ach = map (\<lambda>v. v @ ''_ach'') (math_vars df_ach)"

definition score_step :: "lib \<Rightarrow> frame \<Rightarrow> frame \<Rightarrow> exn + frame" where
  "score_step lib df_ach student_data =
     (case getitem_list student_data (math_vars_merged df_ach) of
        Inl e \<Rightarrow> Inl e
      | Inr items \<Rightarrow> Inr (setitem student_data ''math_score'' (mean_axis1 lib items)))"

text \<open>A table that failed to load is \<open>None\<close>, and reading \<open>.columns\<close> of it raises.\<close>

definition raw_path :: "lib \<Rightarrow> frame option \<Rightarrow> frame option \<Rightarrow> exn + frame" where
  "raw_path lib df_ach df_bg =
     (case df_ach of None \<Rightarrow> Inl AttributeError
      | Some a \<Rightarrow>
     (case df_bg of None \<Rightarrow> Inl AttributeError
      | Some b \<Rightarrow>
     (case merge_step a b of Inl e \<Rightarrow> Inl e
      | Inr student_data \<Rightarrow> score_step lib a student_data)))"

subsection \<open>What a render shows\<close>

text \<open>
  The display elements, in the order the script emits them. A chart is recorded by its
  kind and title, a metric by its label and the value before Python formats it
  (\<open>Number None\<close> is shown as \<open>nan\<close>). \<open>Sidebar\<close> marks an element put in
  the sidebar.
\<close>

datatype shown = Count nat | Number cell

datatype element =
    Header string
  | Write string
  | WriteCount string nat
  | Title string
  | Subheader string
  | Markdown string
  | Metric string shown
  | Pyplot chart string
  | Dataframe frame
  | Warning string
  | Error string
  | Info string
  | Sidebar element

subsection \<open>The loader (lines 16 to 30, 37 to 43 and 64 to 72)\<close>

text \<open>
  The files are the program's input. \<open>path_exists\<close> is \<open>os.path.exists\<close>;
  \<open>read_csv\<close> is \<open>pd.read_csv\<close> and \<open>read_sav\<close> is the import of pyreadstat
  followed by \<open>pyreadstat.read_sav\<close>, each giving the table or the text of the
  exception it raises.
\<close>

record env =
  path_exists :: "string \<Rightarrow> bool"
  read_csv :: "string \<Rightarrow> string + frame"
  read_sav :: "string \<Rightarrow> string + frame"

text \<open>The body of \<open>load_data\<close> inside its \<open>try\<close>: \<open>Inl\<close> is an exception
  raised there.\<close>

definition load_data_body :: "env \<Rightarrow> string \<Rightarrow> string + (frame option \<times> element list)" where
  "load_data_body env file_path =
     (if py_endswith file_path ''.csv'' then
        (case read_csv env file_path of Inl msg \<Rightarrow> Inl msg | Inr df \<Rightarrow> Inr (Some df, []))
      else if path_exists env (py_replace file_path ''.csv'' ''.sav'') then
        (case read_sav env (py_replace file_path ''.csv'' ''.sav'') of
           Inl msg \<Rightarrow> Inl msg
         | Inr df \<Rightarrow> Inr (Some df, []))
      else Inr (None, [Error (''File not found: '' @ file_path)]))"

text \<open>\<open>except Exception as e\<close>: the message is shown and \<open>None\<close> returned.\<close>

definition load_data :: "env \<Rightarrow> string \<Rightarrow> frame option \<times> element list" where
  "load_data env file_path =
     (case load_data_body env file_path of
        Inl msg \<Rightarrow> (None, [Error (''Error loading data: '' @ msg)])
      | Inr r \<Rightarrow> r)"

definition student_csv :: string where
  "student_csv = ''../data/processed_student_data.csv''"

definition load_student :: "lib \<Rightarrow> env \<Rightarrow> (exn + frame option) \<times> element list" where
  "load_student lib env =
     (if path_exists env student_csv then
        (Inr (fst (load_data env student_csv)), snd (load_data env student_csv))
      else
        (let df_ach = load_data env ''../orig/SPSS/bsairlm8.sav'';
             df_bg = load_data env ''../orig/SPSS/bsgirlm8.sav''
         in (case raw_path lib (fst df_ach) (fst df_bg) of
               Inl e \<Rightarrow> Inl e
             | Inr student_data \<Rightarrow> Inr (Some student_data),
             Sidebar (Warning ''Processed data not found, loading raw data...'')
               # snd df_ach @ snd df_bg)))"

definition load_teacher :: "env \<Rightarrow> frame option \<times> element list" where
  "load_teacher env =
     (if path_exists env ''../data/teacher_data.csv''
      then load_data env ''../data/teacher_data.csv''
      else load_data env ''../orig/SPSS/btmirlm8.sav'')"

definition load_school :: "env \<Rightarrow> frame option \<times> element list" where
  "load_school env =
     (if path_exists env ''../data/school_data.csv''
      then load_data env ''../data/school_data.csv''
      else load_data env ''../orig/SPSS/bcgirlm8.sav'')"

subsection \<open>Objects and commands\<close>

text \<open>
  The pages work on Python objects: a variable holds a reference, and an assignment to
  \<open>df.columns\<close> changes the object every reference to it sees. The heap is the list
  of objects, a reference is an index into it, and a new object is put at the end.
  A command takes the render state and returns the state after it together with its
  value or the exception that ended it.
\<close>

datatype pyobj = PyNone | DataFrame frame

record rstate =
  heap :: "pyobj list"
  out :: "element list"

type_synonym 'a cmd = "rstate \<Rightarrow> (exn + 'a) \<times> rstate"

definition return :: "'a \<Rightarrow> 'a cmd" where
  "return a s = (Inr a, s)"

definition raise :: "exn \<Rightarrow> 'a cmd" where
  "raise e s = (Inl e, s)"

definition andthen :: "'a cmd \<Rightarrow> ('a \<Rightarrow> 'b cmd) \<Rightarrow> 'b cmd" where
  "andthen m f s = (case m s of (Inl e, s') \<Rightarrow> (Inl e, s') | (Inr a, s') \<Rightarrow> f a s')"

text \<open>A sequence of statements: the first exception ends it.\<close>

fun run_all :: "unit cmd list \<Rightarrow> unit cmd" where
  "run_all [] = return ()"
| "run_all (c # cs) = andthen c (\<lambda>_. run_all cs)"

definition emit :: "element \<Rightarrow> unit cmd" where
  "emit e s = (Inr (), s\<lparr> out := out s @ [e] \<rparr>)"

definition alloc :: "pyobj \<Rightarrow> nat cmd" where
  "alloc ob s = (Inr (length (heap s)), s\<lparr> heap := heap s @ [ob] \<rparr>)"

text \<open>Reading the object behind a reference; \<open>e\<close> is what the operation raises on
  \<open>None\<close>.\<close>

definition with_frame :: "nat \<Rightarrow> exn \<Rightarrow> (frame \<Rightarrow> 'a cmd) \<Rightarrow> 'a cmd" where
  "with_frame r e f s = (case heap s ! r of PyNone \<Rightarrow> raise e s | DataFrame df \<Rightarrow> f df s)"

subsection \<open>The pandas and seaborn calls of the pages\<close>

text \<open>\<open>len(df)\<close>, \<open>df.columns\<close> and \<open>df[name]\<close>.\<close>

definition df_len :: "nat \<Rightarrow> nat cmd" where
  "df_len r = with_frame r TypeError (\<lambda>df. return (nrows df))"

definition df_columns :: "nat \<Rightarrow> string list cmd" where
  "df_columns r = with_frame r AttributeError (\<lambda>df. return (columns df))"

definition df_getitem :: "nat \<Rightarrow> string \<Rightarrow> cell list cmd" where
  "df_getitem r name =
     with_frame r TypeError
       (\<lambda>df. if name \<in> set (columns df) then return (column df name) else raise KeyError)"

text \<open>\<open>df.dropna(subset=names)\<close> returns a new frame with the rows that have a
  value in every named column.\<close>

definition dropna_frame :: "frame \<Rightarrow> string list \<Rightarrow> frame" where
  "dropna_frame df names =
     (let keep = filter (\<lambda>i. list_all (\<lambda>c. column df c ! i \<noteq> None) names) [0..<nrows df]
      in \<lparr> nrows = length keep,
           cols = map (\<lambda>cv. (fst cv, map (\<lambda>i. snd cv ! i) keep)) (cols df) \<rparr>)"

definition df_dropna :: "nat \<Rightarrow> string list \<Rightarrow> nat cmd" where
  "df_dropna r names =
     with_frame r AttributeError
       (\<lambda>df. if list_all (\<lambda>c. c \<in> set (columns df)) names
             then alloc (DataFrame (dropna_frame df names))
             else raise KeyError)"

text \<open>\<open>series.value_counts()\<close>: the values that are not NaN with their counts, the
  most frequent first; \<open>.reset_index()\<close> makes it a new two-column frame.\<close>

definition value_counts :: "cell list \<Rightarrow> (real \<times> nat) list" where
  "value_counts vs =
     sort_key (\<lambda>p. - int (snd p))
       (map (\<lambda>v. (v, count_list (present vs) v)) (remdups (present vs)))"

definition counts_frame :: "string \<Rightarrow> cell list \<Rightarrow> frame" where
  "counts_frame var vs =
     (let vc = value_counts vs
      in \<lparr> nrows = length vc,
           cols = [(var, map (\<lambda>p. Some (fst p)) vc),
                   (''count'', map (\<lambda>p. Some (real (snd p))) vc)] \<rparr>)"

definition df_value_counts_frame :: "nat \<Rightarrow> string \<Rightarrow> nat cmd" where
  "df_value_counts_frame r var =
     andthen (df_getitem r var) (\<lambda>vs. alloc (DataFrame (counts_frame var vs)))"

text \<open>The aggregates, each over the values that are not NaN. The median of an even
  number of values is the mean of the two middle ones.\<close>

definition nanmedian :: "lib \<Rightarrow> cell list \<Rightarrow> cell" where
  "nanmedian lib vs =
     (let xs = sort (present vs); n = length xs
      in if n = 0 then None
         else if odd n then Some (xs ! (n div 2))
         else Some (mean64 lib [xs ! (n div 2 - 1), xs ! (n div 2)]))"

definition nanstd :: "lib \<Rightarrow> cell list \<Rightarrow> cell" where
  "nanstd lib vs =
     (let xs = present vs in if length xs < 2 then None else Some (std64 lib xs))"

definition count_valid :: "cell list \<Rightarrow> cell" where
  "count_valid vs = Some (real (length (present vs)))"

text \<open>\<open>df.groupby(by)[c]\<close>: the groups are the values of \<open>by\<close> that are not NaN,
  in ascending order.\<close>

definition group_keys :: "frame \<Rightarrow> string \<Rightarrow> real list" where
  "group_keys df by = sort (remdups (present (column df by)))"

definition group_values :: "frame \<Rightarrow> string \<Rightarrow> string \<Rightarrow> real \<Rightarrow> cell list" where
  "group_values df by c k =
     map (\<lambda>i. column df c ! i) (filter (\<lambda>i. column df by ! i = Some k) [0..<nrows df])"

definition agg_frame :: "lib \<Rightarrow> frame \<Rightarrow> string \<Rightarrow> string \<Rightarrow> frame" where
  "agg_frame lib df by c =
     (let ks = group_keys df by
      in \<lparr> nrows = length ks,
           cols = [(by, map Some ks),
                   (''mean'', map (\<lambda>k. nanmean lib (group_values df by c k)) ks),
                   (''median'', map (\<lambda>k. nanmedian lib (group_values df by c k)) ks),
                   (''std'', map (\<lambda>k. nanstd lib (group_values df by c k)) ks),
                   (''count'', map (\<lambda>k. count_valid (group_values df by c k)) ks)] \<rparr>)"

definition mean_frame :: "lib \<Rightarrow> frame \<Rightarrow> string \<Rightarrow> string \<Rightarrow> frame" where
  "mean_frame lib df by c =
     (let ks = group_keys df by
      in \<lparr> nrows = length ks,
           cols = [(by, map Some ks),
                   (c, map (\<lambda>k. nanmean lib (group_values df by c k)) ks)] \<rparr>)"

text \<open>\<open>df.groupby(by)[c].agg(['mean', 'median', 'std', 'count']).reset_index()\<close>
  and \<open>df.groupby(by)[c].mean().reset_index()\<close>: new frames; a name that is no
  column raises \<open>KeyError\<close>.\<close>

definition df_groupby_agg :: "lib \<Rightarrow> nat \<Rightarrow> string \<Rightarrow> string \<Rightarrow> nat cmd" where
  "df_groupby_agg lib r by c =
     with_frame r AttributeError
       (\<lambda>df. if by \<in> set (columns df) \<and> c \<in> set (columns df)
             then alloc (DataFrame (agg_frame lib df by c))
             else raise KeyError)"

definition df_groupby_mean :: "lib \<Rightarrow> nat \<Rightarrow> string \<Rightarrow> string \<Rightarrow> nat cmd" where
  "df_groupby_mean lib r by c =
     with_frame r AttributeError
       (\<lambda>df. if by \<in> set (columns df) \<and> c \<in> set (columns df)
             then alloc (DataFrame (mean_frame lib df by c))
             else raise KeyError)"

text \<open>\<open>df.columns = names\<close> renames the columns of the object itself, and raises
  \<open>ValueError\<close> when the number of names is not the number of columns.\<close>

definition df_set_columns :: "nat \<Rightarrow> string list \<Rightarrow> unit cmd" where
  "df_set_columns r names =
     with_frame r AttributeError
       (\<lambda>df s. if length names = length (cols df)
               then (Inr (), s\<lparr> heap := (heap s)[r := DataFrame (df\<lparr> cols := zip names (map snd (cols df)) \<rparr>)] \<rparr>)
               else raise ValueError s)"

text \<open>\<open>sns.boxplot(x=x, y=y, data=df, ax=ax)\<close> and \<open>sns.barplot\<close> likewise: seaborn
  raises \<open>ValueError\<close> for a name that is no column of \<open>data\<close>, and when it does
  not accept the two columns; otherwise the call draws on the figure and shows nothing
  yet.\<close>

definition sns_plot :: "lib \<Rightarrow> chart \<Rightarrow> nat \<Rightarrow> string \<Rightarrow> string \<Rightarrow> unit cmd" where
  "sns_plot lib kind r x y =
     with_frame r ValueError
       (\<lambda>df. if x \<in> set (columns df) \<and> y \<in> set (columns df) \<and>
                draws lib kind [column df x, column df y]
             then return () else raise ValueError)"

text \<open>\<open>ax.pie(counts, labels=counts.index, autopct=...)\<close> on the result of
  \<open>value_counts\<close>: the values and their counts.\<close>

definition ax_pie :: "lib \<Rightarrow> (real \<times> nat) list \<Rightarrow> unit cmd" where
  "ax_pie lib counts =
     (if draws lib Pie [map (\<lambda>p. Some (fst p)) counts, map (\<lambda>p. Some (real (snd p))) counts]
      then return () else raise ValueError)"

text \<open>\<open>sns.histplot(series, bins=30, kde=True, ax=ax)\<close>: for a series without any
  row seaborn finds no data and returns the axes at once; any other series it draws or
  raises.\<close>

definition sns_histplot :: "lib \<Rightarrow> cell list \<Rightarrow> unit cmd" where
  "sns_histplot lib series =
     (if series = [] \<or> draws lib Histogram [series] then return () else raise ValueError)"

definition st_dataframe :: "nat \<Rightarrow> unit cmd" where
  "st_dataframe r = with_frame r TypeError (\<lambda>df. emit (Dataframe df))"

subsection \<open>The pages (lines 75 to 318)\<close>

text \<open>
  A page is the list of its statements in order; the variables \<open>student_data\<close>,
  \<open>teacher_data\<close> and \<open>school_data\<close> are references to the loaded objects.
  Layout calls (\<open>st.columns\<close>, figure and axis set-up, labels) show nothing and cannot
  fail, and are left out; the plotting calls are kept, since they can raise. The markdown
  text under the histogram is abbreviated to its heading.
\<close>

definition overview :: "lib \<Rightarrow> nat \<Rightarrow> unit cmd list" where
  "overview lib student_data =
     [emit (Title ''Mathematics Performance Overview''),
      andthen (df_len student_data)
        (\<lambda>n. emit (Metric ''Number of Students'' (Count n))),
      andthen (df_getitem student_data ''math_score'')
        (\<lambda>scores. emit (Metric ''Average Math Score'' (Number (nanmean lib scores)))),
      andthen (df_getitem student_data ''math_score'')
        (\<lambda>scores. emit (Metric ''Median Math Score'' (Number (nanmedian lib scores)))),
      emit (Subheader ''Distribution of Math Scores''),
      andthen (df_getitem student_data ''math_score'')
        (\<lambda>scores. andthen (sns_histplot lib scores)
           (\<lambda>_. emit (Pyplot Histogram ''Distribution of Mathematics Scores with TIMSS Benchmarks''))),
      emit (Markdown ''**TIMSS Benchmarks:**'')]"

text \<open>Lines 123 to 153.\<close>

definition gender_block :: "lib \<Rightarrow> nat \<Rightarrow> unit cmd" where
  "gender_block lib student_data =
     andthen (df_columns student_data) (\<lambda>cs.
     let gender_var = (if ''BSBG01'' \<in> set cs then ''BSBG01'' else ''ITSEX'') in
     andthen (df_columns student_data) (\<lambda>cs'.
     if gender_var \<in> set cs' then
       andthen (df_dropna student_data [gender_var]) (\<lambda>gender_data.
       andthen (df_getitem gender_data gender_var) (\<lambda>genders.
       andthen (ax_pie lib (value_counts genders)) (\<lambda>_.
       andthen (emit (Pyplot Pie ''Gender Distribution'')) (\<lambda>_.
       andthen (sns_plot lib Boxplot gender_data gender_var ''math_score'') (\<lambda>_.
       andthen (emit (Pyplot Boxplot ''Mathematics Performance by Gender'')) (\<lambda>_.
       andthen (df_groupby_agg lib gender_data gender_var ''math_score'') (\<lambda>gender_stats.
       andthen (df_set_columns gender_stats
                  [''Gender'', ''Mean Score'', ''Median Score'', ''Std Deviation'', ''Count'']) (\<lambda>_.
       st_dataframe gender_stats))))))))
     else emit (Warning ''Gender variable not found in the dataset'')))"

text \<open>Lines 157 to 184. \<open>books_var\<close> is the name or \<open>None\<close>, and \<open>None\<close> is false
  in the condition.\<close>

definition books_block :: "lib \<Rightarrow> nat \<Rightarrow> unit cmd" where
  "books_block lib student_data =
     andthen (df_columns student_data) (\<lambda>cs.
     let books_var = (if ''BSBG04'' \<in> set cs then Some ''BSBG04'' else None) in
     (case books_var of
        None \<Rightarrow> emit (Warning ''Books at home variable not found in the dataset'')
      | Some var \<Rightarrow>
        andthen (df_columns student_data) (\<lambda>cs'.
        if var \<in> set cs' then
          andthen (df_dropna student_data [var]) (\<lambda>books_data.
          andthen (sns_plot lib Boxplot books_data var ''math_score'') (\<lambda>_.
          andthen (emit (Pyplot Boxplot ''Mathematics Performance by Books at Home'')) (\<lambda>_.
          andthen (df_groupby_mean lib books_data var ''math_score'') (\<lambda>books_avg.
          andthen (df_set_columns books_avg [''Books at Home'', ''Average Score'']) (\<lambda>_.
          andthen (sns_plot lib Barplot books_avg ''Books at Home'' ''Average Score'') (\<lambda>_.
          emit (Pyplot Barplot ''Average Mathematics Score by Books at Home'')))))))
        else emit (Warning ''Books at home variable not found in the dataset''))))"

text \<open>Lines 190 to 207: the body of the loop over \<open>attitude_vars\<close>.\<close>

definition attitude_vars :: "(string \<times> string) list" where
  "attitude_vars =
     [(''BSBGSLM'', ''Student Likes Mathematics''),
      (''BSBGSCM'', ''Student Confident in Mathematics'')]"

definition attitude_block :: "lib \<Rightarrow> nat \<Rightarrow> string \<times> string \<Rightarrow> unit cmd" where
  "attitude_block lib student_data vl =
     andthen (df_columns student_data) (\<lambda>cs.
     if fst vl \<in> set cs then
       andthen (df_dropna student_data [fst vl]) (\<lambda>attitude_data.
       andthen (sns_plot lib Barplot attitude_data (fst vl) ''math_score'') (\<lambda>_.
       emit (Pyplot Barplot (''Mathematics Performance by '' @ snd vl))))
     else emit (Warning (snd vl @ '' variable not found in the dataset'')))"

definition student_factors :: "lib \<Rightarrow> nat \<Rightarrow> unit cmd list" where
  "student_factors lib student_data =
     [emit (Title ''Student Background and Attitudes''),
      emit (Subheader ''Gender and Mathematics Performance''),
      gender_block lib student_data,
      emit (Subheader ''Home Educational Resources''),
      books_block lib student_data,
      emit (Subheader ''Student Attitudes Toward Mathematics'')]
     @ map (attitude_block lib student_data) attitude_vars"

text \<open>The five count charts of the teacher and school pages are the same statements
  with another table, variable, axis label, title and message (lines 218 to 233, 238
  to 253, 264 to 279, 285 to 300 and 303 to 318).\<close>

definition counts_block :: "lib \<Rightarrow> nat \<Rightarrow> string \<Rightarrow> string \<Rightarrow> string \<Rightarrow> string \<Rightarrow> unit cmd" where
  "counts_block lib data name xlabel title msg =
     andthen (df_columns data) (\<lambda>cs.
     let var = (if name \<in> set cs then Some name else None) in
     (case var of
        None \<Rightarrow> emit (Warning msg)
      | Some v \<Rightarrow>
        andthen (df_columns data) (\<lambda>cs'.
        if v \<in> set cs' then
          andthen (df_value_counts_frame data v) (\<lambda>counts.
          andthen (df_set_columns counts [xlabel, ''Count'']) (\<lambda>_.
          andthen (sns_plot lib Barplot counts xlabel ''Count'') (\<lambda>_.
          emit (Pyplot Barplot title))))
        else emit (Warning msg))))"

definition teacher_factors :: "lib \<Rightarrow> nat \<Rightarrow> unit cmd list" where
  "teacher_factors lib teacher_data =
     [emit (Title ''Teacher and Instruction Factors''),
      emit (Subheader ''Teacher Demographics''),
      andthen (df_len teacher_data) (\<lambda>n. emit (WriteCount ''Number of teachers: '' n)),
      counts_block lib teacher_data ''BTBG01'' ''Years of Experience''
        ''Distribution of Teaching Experience''
        ''Teacher experience variable not found in the dataset'',
      emit (Subheader ''Teacher Preparation and Professional Development''),
      counts_block lib teacher_data ''BTBG04'' ''Education Level''
        ''Teacher Education Levels''
        ''Teacher education variable not found in the dataset'']"

definition school_context :: "lib \<Rightarrow> nat \<Rightarrow> unit cmd list" where
  "school_context lib school_data =
     [emit (Title ''School Context Factors''),
      emit (Subheader ''School Demographics''),
      andthen (df_len school_data) (\<lambda>n. emit (WriteCount ''Number of schools: '' n)),
      counts_block lib school_data ''BCBG05A'' ''Location''
        ''Distribution of Schools by Location''
        ''School location variable not found in the dataset'',
      emit (Subheader ''School Composition and Climate''),
      counts_block lib school_data ''BCBG03A'' ''Economic Disadvantage''
        ''Schools by Percentage of Economically Disadvantaged Students''
        ''Economic disadvantage variable not found in the dataset'',
      counts_block lib school_data ''BCBGEAS'' ''Emphasis on Academic Success''
        ''School Emphasis on Academic Success''
        ''School emphasis variable not found in the dataset'']"

datatype page = Overview | StudentFactors | TeacherFactors | SchoolContext

fun page_blocks :: "lib \<Rightarrow> page \<Rightarrow> nat \<Rightarrow> nat \<Rightarrow> nat \<Rightarrow> unit cmd list" where
  "page_blocks lib Overview student_data teacher_data school_data = overview lib student_data"
| "page_blocks lib StudentFactors student_data teacher_data school_data = student_factors lib student_data"
| "page_blocks lib TeacherFactors student_data teacher_data school_data = teacher_factors lib teacher_data"
| "page_blocks lib SchoolContext student_data teacher_data school_data = school_context lib school_data"

definition render :: "lib \<Rightarrow> page \<Rightarrow> nat \<Rightarrow> nat \<Rightarrow> nat \<Rightarrow> unit cmd" where
  "render lib p student_data teacher_data school_data =
     run_all (page_blocks lib p student_data teacher_data school_data)"

text \<open>The table a page reads.\<close>

fun page_table :: "page \<Rightarrow> nat \<Rightarrow> nat \<Rightarrow> nat \<Rightarrow> nat" where
  "page_table Overview student_data teacher_data school_data = student_data"
| "page_table StudentFactors student_data teacher_data school_data = student_data"
| "page_table TeacherFactors student_data teacher_data school_data = teacher_data"
| "page_table SchoolContext student_data teacher_data school_data = school_data"

text \<open>
  The variables a page guards: the position of the guarded statement in the page, the
  names it looks for (the variable and its alternate), and the warning of its \<open>else\<close>
  branch.
\<close>

fun guards :: "page \<Rightarrow> (nat \<times> string list \<times> string) list" where
  "guards Overview = []"
| "guards StudentFactors =
     [(2, [''BSBG01'', ''ITSEX''], ''Gender variable not found in the dataset''),
      (4, [''BSBG04''], ''Books at home variable not found in the dataset''),
      (6, [''BSBGSLM''], ''Student Likes Mathematics variable not found in the dataset''),
      (7, [''BSBGSCM''], ''Student Confident in Mathematics variable not found in the dataset'')]"
| "guards TeacherFactors =
     [(3, [''BTBG01''], ''Teacher experience variable not found in the dataset''),
      (5, [''BTBG04''], ''Teacher education variable not found in the dataset'')]"
| "guards SchoolContext =
     [(3, [''BCBG05A''], ''School location variable not found in the dataset''),
      (5, [''BCBG03A''], ''Economic disadvantage variable not found in the dataset''),
      (6, [''BCBGEAS''], ''School emphasis variable not found in the dataset'')]"

subsection \<open>The script\<close>

definition to_obj :: "frame option \<Rightarrow> pyobj" where
  "to_obj v = (case v of None \<Rightarrow> PyNone | Some df \<Rightarrow> DataFrame df)"

definition intro :: "element list" where
  "intro =
     [Header ''TIMSS 2023 Mathematics Dashboard'',
      Write ''This dashboard explores the TIMSS 2023 data for Irish 8th grade students, focusing on mathematics performance and factors influencing it.'',
      Sidebar (Title ''Navigation'')]"

definition footer :: "unit cmd list" where
  "footer =
     [emit (Sidebar (Markdown ''---'')),
      emit (Sidebar (Info ''Dashboard created for Data Mining module'')),
      emit (Sidebar (Info ''Data source: TIMSS 2023 Ireland Grade 8 dataset''))]"

text \<open>One run of the script for the page chosen in the sidebar. The loaded objects
  are the references 0, 1 and 2. An exception on the raw-data path ends the run before
  the teacher and school tables are loaded.\<close>

definition script :: "lib \<Rightarrow> env \<Rightarrow> page \<Rightarrow> (exn + unit) \<times> rstate" where
  "script lib env p =
     (let student = load_student lib env
      in case fst student of
           Inl e \<Rightarrow> (Inl e, \<lparr> heap = [], out = intro @ snd student \<rparr>)
         | Inr student_data \<Rightarrow>
             (let teacher = load_teacher env; school = load_school env
              in run_all (render lib p 0 1 2 # footer)
                   \<lparr> heap = [to_obj student_data, to_obj (fst teacher), to_obj (fst school)],
                     out = intro @ snd student @ snd teacher @ snd school \<rparr>))"

subsection \<open>Concrete tables\<close>

text \<open>The merge scenario of the specification, and the same achievement table with a
  background table that has item columns of its own, as the TIMSS background files do.\<close>

definition ach_scenario :: frame where
  "ach_scenario =
     \<lparr> nrows = 2,
       cols = [(''ID1'', [Some 1, Some 2]),
               (''BSMMAT01'', [Some 500, Some 600]),
               (''BSMMAT02'', [Some 520, Some 580])] \<rparr>"

definition bg_scenario :: frame where
  "bg_scenario =
     \<lparr> nrows = 2, cols = [(''ID1'', [Some 1, Some 2]), (''BSBG01'', [Some 1, Some 2])] \<rparr>"


text \<open>Two tables whose only common column is not an identifier.\<close>

definition ach_noid :: frame where
  "ach_noid =
     \<lparr> nrows = 2,
       cols = [(''STUDENT'', [Some 1, Some 2]), (''BSMMAT01'', [Some 500, Some 600])] \<rparr>"

definition bg_noid :: frame where
  "bg_noid =
     \<lparr> nrows = 2, cols = [(''STUDENT'', [Some 1, Some 2]), (''BSBG01'', [Some 1, Some 2])] \<rparr>"

text \<open>An achievement table without item columns.\<close>

definition ach_noitems :: frame where
  "ach_noitems = \<lparr> nrows = 2, cols = [(''ID1'', [Some 1, Some 2])] \<rparr>"

text \<open>The student table that the raw-data path builds from \<open>ach_scenario\<close> and
  \<open>bg_with_items\<close>.\<close>

definition sd_with_items :: frame where
  "sd_with_items =
     \<lparr> nrows = 2,
       cols = [(''ID1'', [Some 1, Some 2]),
               (''BSMMAT01_ach'', [Some 500, Some 600]),
               (''BSMMAT02_ach'', [Some 520, Some 580]),
               (''BSBG01'', [Some 1, Some 2]),
               (''BSMMAT01_bg'', [Some 400, Some 450]),
               (''BSMMAT02_bg'', [Some 410, Some 460]),
               (''math_score'', [Some 510, Some 590])] \<rparr>"

text \<open>Two tables in which the identifier 1 occurs twice, and the merge of the
  scenario tables.\<close>

definition ach_dup :: frame where
  "ach_dup = \<lparr> nrows = 2, cols = [(''IDSTUD'', [Some 1, Some 1]), (''BSMMAT01'', [Some 500, Some 510])] \<rparr>"

definition bg_dup :: frame where
  "bg_dup = \<lparr> nrows = 2, cols = [(''IDSTUD'', [Some 1, Some 1]), (''BSBG01'', [Some 1, Some 2])] \<rparr>"

definition merged_scenario :: frame where
  "merged_scenario =
     \<lparr> nrows = 2,
       cols = [(''ID1'', [Some 1, Some 2]),
               (''BSMMAT01'', [Some 500, Some 600]),
               (''BSMMAT02'', [Some 520, Some 580]),
               (''BSBG01'', [Some 1, Some 2])] \<rparr>"

text \<open>Files: only the processed student file exists, and it holds \<open>sd_with_items\<close>.\<close>

definition env_csv :: env where
  "env_csv =
     \<lparr> path_exists = (\<lambda>p. p = student_csv),
       read_csv = (\<lambda>p. if p = student_csv then Inr sd_with_items else Inl ''No such file''),
       read_sav = (\<lambda>p. Inl ''No such file'') \<rparr>"

text \<open>Tables for the pages: a teacher table without \<open>BTBG01\<close>, a school table, a
  student table without rows, and a render state that holds the three loaded tables.\<close>

definition teachers_demo :: frame where
  "teachers_demo = \<lparr> nrows = 3, cols = [(''BTBG04'', [Some 5, Some 6, Some 5])] \<rparr>"

definition schools_demo :: frame where
  "schools_demo = \<lparr> nrows = 2, cols = [(''BCBG05A'', [Some 1, Some 2])] \<rparr>"

definition empty_students :: frame where
  "empty_students = \<lparr> nrows = 0, cols = [(''IDSTUD'', []), (''math_score'', [])] \<rparr>"

definition s_demo :: rstate where
  "s_demo = \<lparr> heap = [DataFrame sd_with_items, DataFrame teachers_demo, DataFrame schools_demo],
              out = [] \<rparr>"

text \<open>A processed student file without the column \<open>math_score\<close>, and the render
  state the script reaches with it.\<close>

definition env_noscore :: env where
  "env_noscore =
     \<lparr> path_exists = (\<lambda>p. p = student_csv),
       read_csv = (\<lambda>p. if p = student_csv then Inr merged_scenario else Inl ''No such file''),
       read_sav = (\<lambda>p. Inl ''No such file'') \<rparr>"

definition s_noscore :: rstate where
  "s_noscore = \<lparr> heap = [DataFrame merged_scenario, PyNone, PyNone], out = [] \<rparr>"



subsection \<open>Notions the properties are stated with\<close>


text \<open>The values of row \<open>i\<close> in the key columns, and a table in which no such
  tuple occurs twice.\<close>

definition key_tuple :: "frame \<Rightarrow> string list \<Rightarrow> nat \<Rightarrow> cell list" where
  "key_tuple df keys i = map (\<lambda>k. column df k ! i) keys"

definition distinct_keys :: "frame \<Rightarrow> string list \<Rightarrow> bool" where
  "distinct_keys df keys = distinct (map (key_tuple df keys) [0..<nrows df])"

text \<open>The table of the flat file at a path, and the table of the statistical-package
  file at a path; \<open>None\<close> when the file cannot be read.\<close>

definition csv_table :: "env \<Rightarrow> string \<Rightarrow> frame option" where
  "csv_table env p = (case read_csv env p of Inl msg \<Rightarrow> None | Inr df \<Rightarrow> Some df)"

definition sav_table :: "env \<Rightarrow> string \<Rightarrow> frame option" where
  "sav_table env p =
     (if path_exists env p
      then (case read_sav env p of Inl msg \<Rightarrow> None | Inr df \<Rightarrow> Some df)
      else None)"

text \<open>The variables the sections of the Student Factors page look for.\<close>

definition student_vars :: "string list" where
  "student_vars = [''BSBG01'', ''ITSEX'', ''BSBG04'', ''BSBGSLM'', ''BSBGSCM'']"

text \<open>
  A command keeps the heap below \<open>n\<close>: run in a state with at least \<open>n\<close> objects, it
  leaves the first \<open>n\<close> objects as they are, whether it returns or raises, and a value
  it returns satisfies \<open>Q\<close>.
\<close>

definition heap_kept :: "nat \<Rightarrow> 'a cmd \<Rightarrow> ('a \<Rightarrow> bool) \<Rightarrow> bool" where
  "heap_kept n m Q =
     (\<forall>s::rstate. n \<le> length (heap s) \<longrightarrow>
        n \<le> length (heap (snd (m s))) \<and> take n (heap (snd (m s))) = take n (heap s) \<and>
        (\<forall>a. fst (m s) = Inr a \<longrightarrow> Q a))"



section \<open>Properties\<close>

subsection \<open>Evaluation\<close>

lemmas raw_defs =
  raw_path_def merge_step_def score_step_def id_cols_def common_ids_def columns_def
  py_startswith_def pd_merge_def Let_def suffixed_def overlapping_def join_pairs_def
  key_match_def column_def getitem_list_def math_vars_merged_def math_vars_def upt_rec
  setitem_def mean_axis1_def row_cells_def nanmean_def present_def

lemma map_const_upt: "map (\<lambda>i. c) [0..<n] = replicate n c"
  by (induction n) (simp_all add: replicate_append_same)

lemma getitem_list_Nil: "getitem_list df [] = Inr \<lparr> nrows = nrows df, cols = [] \<rparr>"
  by (simp add: getitem_list_def)

lemma mean_axis1_no_cols: "mean_axis1 lib \<lparr> nrows = n, cols = [] \<rparr> = replicate n None"
  by (simp add: mean_axis1_def row_cells_def nanmean_def present_def map_const_upt)

subsection \<open>The merge scenario\<close>

text \<open>
  Claim C1. On the scenario tables the claim expects the composite scores 510 and 590.
  The script raises instead: \<open>BSMMAT01\<close> and \<open>BSMMAT02\<close> are columns of the
  achievement table only, so the merge leaves their names as they are, and the script
  then selects \<open>BSMMAT01_ach\<close> and \<open>BSMMAT02_ach\<close>, which are no columns.
\<close>

theorem scenario_raises_KeyError:
  "merge_step ach_scenario bg_scenario =
     Inr \<lparr> nrows = 2,
           cols = [(''ID1'', [Some 1, Some 2]),
                   (''BSMMAT01'', [Some 500, Some 600]),
                   (''BSMMAT02'', [Some 520, Some 580]),
                   (''BSBG01'', [Some 1, Some 2])] \<rparr> \<and>
   math_vars_merged ach_scenario = [''BSMMAT01_ach'', ''BSMMAT02_ach''] \<and>
   raw_path lib (Some ach_scenario) (Some bg_scenario) = Inl KeyError"
  by (simp add: raw_defs ach_scenario_def bg_scenario_def)


subsection \<open>No shared identifier column\<close>

text \<open>
  Claim C4, as amended. When the two tables share no column whose name starts with
  \<open>ID\<close>, the script passes the empty key list to the merge, and the merge raises:
  there is no join on the other shared columns.
\<close>

theorem empty_key_list_raises:
  assumes "id_cols ach bg = []"
  shows "merge_step ach bg = Inl IndexError \<and> raw_path lib (Some ach) (Some bg) = Inl IndexError"
  using assms by (simp add: merge_step_def pd_merge_def raw_path_def)

theorem empty_key_list_raises_witness:
  "id_cols ach_noid bg_noid = [] \<and>
   merge_step ach_noid bg_noid = Inl IndexError \<and>
   raw_path lib_exact (Some ach_noid) (Some bg_noid) = Inl IndexError"
proof -
  have h: "id_cols ach_noid bg_noid = []"
    by (simp add: raw_defs ach_noid_def bg_noid_def)
  show ?thesis
    using h empty_key_list_raises [OF h] by simp
qed

text \<open>The claim as stated fails: the tables share the column \<open>STUDENT\<close> and no
  identifier column; a join on the shared column would give two rows, and the script's
  merge raises.\<close>

theorem all_columns_join_counterexample:
  "id_cols ach_noid bg_noid = [] \<and>
   common_ids ach_noid bg_noid = [''STUDENT''] \<and>
   pd_merge ach_noid bg_noid (common_ids ach_noid bg_noid) ''_ach'' ''_bg'' =
     Inr \<lparr> nrows = 2,
           cols = [(''STUDENT'', [Some 1, Some 2]),
                   (''BSMMAT01'', [Some 500, Some 600]),
                   (''BSBG01'', [Some 1, Some 2])] \<rparr> \<and>
   merge_step ach_noid bg_noid = Inl IndexError"
  by (simp add: raw_defs ach_noid_def bg_noid_def)

subsection \<open>No item column\<close>

text \<open>
  Claim C5, as amended. When the achievement table has no column whose name starts
  with \<open>BSMMAT\<close> and the merge succeeds, the score computation does not raise: the
  selection is a frame without columns, its row means are NaN, and every row of the
  student table gets the composite score NaN.
\<close>

theorem no_item_columns_all_nan:
  assumes "math_vars ach = []" and "merge_step ach bg = Inr m"
  shows "raw_path lib (Some ach) (Some bg) =
           Inr (setitem m ''math_score'' (replicate (nrows m) None))"
  using assms
  by (simp add: raw_path_def score_step_def math_vars_merged_def getitem_list_Nil
      mean_axis1_no_cols)

theorem no_item_columns_all_nan_witness:
  "math_vars ach_noitems = [] \<and>
   merge_step ach_noitems bg_scenario =
     Inr \<lparr> nrows = 2, cols = [(''ID1'', [Some 1, Some 2]), (''BSBG01'', [Some 1, Some 2])] \<rparr> \<and>
   raw_path lib_exact (Some ach_noitems) (Some bg_scenario) =
     Inr \<lparr> nrows = 2,
           cols = [(''ID1'', [Some 1, Some 2]), (''BSBG01'', [Some 1, Some 2]),
                   (''math_score'', [None, None])] \<rparr>"
proof -
  have h1: "math_vars ach_noitems = []"
    by (simp add: raw_defs ach_noitems_def)
  have h2: "merge_step ach_noitems bg_scenario =
     Inr \<lparr> nrows = 2, cols = [(''ID1'', [Some 1, Some 2]), (''BSBG01'', [Some 1, Some 2])] \<rparr>"
    by (simp add: raw_defs ach_noitems_def bg_scenario_def)
  show ?thesis
    using h1 h2 no_item_columns_all_nan [OF h1 h2]
    by (simp add: setitem_def columns_def numeral_2_eq_2)
qed

text \<open>The claim as stated fails: the computation returns a table, and its composite
  scores are all NaN.\<close>

theorem no_item_columns_counterexample:
  "math_vars ach_noitems = [] \<and>
   raw_path lib_exact (Some ach_noitems) (Some bg_scenario) =
     Inr \<lparr> nrows = 2,
           cols = [(''ID1'', [Some 1, Some 2]), (''BSBG01'', [Some 1, Some 2]),
                   (''math_score'', [None, None])] \<rparr>"
  by (simp add: raw_defs ach_noitems_def bg_scenario_def)

subsection \<open>The composite score\<close>














subsection \<open>The merge\<close>

lemma key_match_iff: "key_match l r keys i j \<longleftrightarrow> key_tuple l keys i = key_tuple r keys j"
  by (simp add: key_match_def key_tuple_def list_all_iff)

lemma set_join_pairs:
  "set (join_pairs l r keys) = {(i, j). i < nrows l \<and> j < nrows r \<and> key_match l r keys i j}"
  by (auto simp: join_pairs_def)

lemma distinct_concat_pairs:
  "distinct xs \<Longrightarrow> (\<And>i. distinct (f i)) \<Longrightarrow> distinct (concat (map (\<lambda>i. map (Pair i) (f i)) xs))"
  by (induction xs) (auto simp: distinct_map inj_on_def)

lemma distinct_join_pairs: "distinct (join_pairs l r keys)"
  unfolding join_pairs_def by (rule distinct_concat_pairs) simp_all

lemma length_join_pairs_product: "length (join_pairs l r keys) \<le> nrows l * nrows r"
proof -
  have "length (join_pairs l r keys) = card (set (join_pairs l r keys))"
    by (simp add: distinct_card distinct_join_pairs)
  also have "\<dots> \<le> card ({..<nrows l} \<times> {..<nrows r})"
    by (rule card_mono) (auto simp: set_join_pairs)
  finally show ?thesis by simp
qed

lemma distinct_keys_inj:
  "distinct_keys df keys \<Longrightarrow> i < nrows df \<Longrightarrow> j < nrows df \<Longrightarrow>
   key_tuple df keys i = key_tuple df keys j \<Longrightarrow> i = j"
  by (auto simp: distinct_keys_def distinct_map inj_on_def)

lemma length_join_pairs_left:
  assumes "distinct_keys r keys"
  shows "length (join_pairs l r keys) \<le> nrows l"
proof -
  have inj: "inj_on fst (set (join_pairs l r keys))"
    using assms by (auto simp: inj_on_def set_join_pairs key_match_iff dest: distinct_keys_inj)
  have "length (join_pairs l r keys) = card (set (join_pairs l r keys))"
    by (simp add: distinct_card distinct_join_pairs)
  also have "\<dots> = card (fst ` set (join_pairs l r keys))"
    using inj by (simp add: card_image)
  also have "\<dots> \<le> card {..<nrows l}"
    by (rule card_mono) (auto simp: set_join_pairs)
  finally show ?thesis by simp
qed

lemma length_join_pairs_right:
  assumes "distinct_keys l keys"
  shows "length (join_pairs l r keys) \<le> nrows r"
proof -
  have inj: "inj_on snd (set (join_pairs l r keys))"
    using assms by (auto simp: inj_on_def set_join_pairs key_match_iff dest: distinct_keys_inj)
  have "length (join_pairs l r keys) = card (set (join_pairs l r keys))"
    by (simp add: distinct_card distinct_join_pairs)
  also have "\<dots> = card (snd ` set (join_pairs l r keys))"
    using inj by (simp add: card_image)
  also have "\<dots> \<le> card {..<nrows r}"
    by (rule card_mono) (auto simp: set_join_pairs)
  finally show ?thesis by simp
qed

lemma map_of_zip_labels:
  "distinct (map g xs) \<Longrightarrow> x \<in> set xs \<Longrightarrow>
   map_of (zip (map g xs) (map h xs)) (g x) = Some (h x)"
  by (induction xs) (auto simp: image_iff)

lemma pd_merge_InrD:
  assumes "pd_merge l r keys ls rs = Inr m"
  shows "keys \<noteq> []"
    and "\<forall>k\<in>set keys. k \<in> set (columns l) \<and> k \<in> set (columns r)"
    and "distinct (map (suffixed l r keys ls) (columns l))"
    and "nrows m = length (join_pairs l r keys)"
    and "cols m = zip (map (suffixed l r keys ls) (columns l))
                    (map (\<lambda>cv. map (\<lambda>p. snd cv ! fst p) (join_pairs l r keys)) (cols l))
                @ zip (map (suffixed l r keys rs) (map fst (filter (\<lambda>cv. fst cv \<notin> set keys) (cols r))))
                    (map (\<lambda>cv. map (\<lambda>p. snd cv ! snd p) (join_pairs l r keys))
                       (filter (\<lambda>cv. fst cv \<notin> set keys) (cols r)))"
  using assms by (auto simp: pd_merge_def Let_def list_all_iff split: if_splits)

lemma merged_key_column:
  assumes m: "pd_merge l r keys ls rs = Inr m" and k: "k \<in> set keys"
  shows "column m k = map (\<lambda>p. column l k ! fst p) (join_pairs l r keys)"
proof -
  note d = pd_merge_InrD [OF m]
  let ?g = "\<lambda>cv. suffixed l r keys ls (fst cv)"
  let ?h = "\<lambda>cv. map (\<lambda>p. snd cv ! fst p) (join_pairs l r keys)"
  from d(2) k have "k \<in> set (columns l)" by simp
  then obtain vs where vs: "(k, vs) \<in> set (cols l)"
    by (auto simp: columns_def)
  have dg: "distinct (map ?g (cols l))"
    using d(3) by (simp add: columns_def comp_def)
  have dl: "distinct (map fst (cols l))"
    using d(3) by (metis distinct_map columns_def)
  have col_l: "column l k = vs"
    using dl vs by (simp add: column_def)
  have suf: "suffixed l r keys ls k = k"
    using k by (simp add: suffixed_def overlapping_def)
  have "map_of (zip (map ?g (cols l)) (map ?h (cols l))) (?g (k, vs)) = Some (?h (k, vs))"
    using dg vs by (rule map_of_zip_labels)
  then have "map_of (cols m) k = Some (map (\<lambda>p. vs ! fst p) (join_pairs l r keys))"
    by (simp add: d(5) columns_def suf comp_def map_add_def)
  then have "column m k = map (\<lambda>p. vs ! fst p) (join_pairs l r keys)"
    by (simp add: column_def)
  then show ?thesis
    by (simp only: col_l)
qed

text \<open>The merge depends on the key list only through the set of its names, so the
  order Python gives \<open>common_ids\<close> does not matter.\<close>

lemma pd_merge_key_set:
  assumes "set ks = set ks'"
  shows "pd_merge l r ks ls rs = pd_merge l r ks' ls rs"
proof -
  have e: "(ks = []) = (ks' = [])"
    using assms by (metis set_empty)
  have km: "key_match l r ks = key_match l r ks'"
    by (simp add: fun_eq_iff key_match_def list_all_iff assms)
  have jp: "join_pairs l r ks = join_pairs l r ks'"
    by (simp add: join_pairs_def km)
  have sf: "suffixed l r ks = suffixed l r ks'"
    by (simp add: fun_eq_iff suffixed_def overlapping_def assms)
  show ?thesis
    by (simp add: pd_merge_def e jp sf list_all_iff assms)
qed


lemma id_cols_scenario: "id_cols ach_scenario bg_scenario = [''ID1'']"
  by (simp add: raw_defs ach_scenario_def bg_scenario_def)

text \<open>
  Claim C3, as amended. When the tables share an identifier column and the merge
  returns the table \<open>m\<close>: the number of rows of \<open>m\<close> is at most the product of the
  two row counts; it is at most the achievement row count when no identifier tuple
  occurs twice in the background table, and at most the background row count when none
  occurs twice in the achievement table (so at most the minimum when both hold); and
  every row of \<open>m\<close> has, in every identifier column, the value of one achievement row
  and of one background row.
\<close>

theorem merge_rows:
  assumes "id_cols ach bg \<noteq> []" and "merge_step ach bg = Inr m"
  shows "nrows m \<le> nrows ach * nrows bg \<and>
         (distinct_keys bg (id_cols ach bg) \<longrightarrow> nrows m \<le> nrows ach) \<and>
         (distinct_keys ach (id_cols ach bg) \<longrightarrow> nrows m \<le> nrows bg) \<and>
         (\<forall>r<nrows m. \<exists>i<nrows ach. \<exists>j<nrows bg. \<forall>k\<in>set (id_cols ach bg).
            column m k ! r = column ach k ! i \<and> column m k ! r = column bg k ! j)"
proof -
  let ?ids = "id_cols ach bg"
  let ?pairs = "join_pairs ach bg ?ids"
  from assms(2) have m: "pd_merge ach bg ?ids ''_ach'' ''_bg'' = Inr m"
    by (simp add: merge_step_def)
  have n: "nrows m = length ?pairs"
    by (rule pd_merge_InrD(4) [OF m])
  have rows: "\<exists>i<nrows ach. \<exists>j<nrows bg. \<forall>k\<in>set ?ids.
      column m k ! r = column ach k ! i \<and> column m k ! r = column bg k ! j"
    if r: "r < nrows m" for r
  proof -
    obtain i j where ij: "?pairs ! r = (i, j)" by (cases "?pairs ! r")
    have "(i, j) \<in> set ?pairs"
      using r n ij by (metis nth_mem)
    then have b: "i < nrows ach" "j < nrows bg" and km: "key_match ach bg ?ids i j"
      by (auto simp: set_join_pairs)
    have "column m k ! r = column ach k ! i \<and> column m k ! r = column bg k ! j"
      if k: "k \<in> set ?ids" for k
    proof -
      have "column m k ! r = column ach k ! i"
        using r n ij by (simp add: merged_key_column [OF m k])
      moreover have "column ach k ! i = column bg k ! j"
        using km k by (simp add: key_match_def list_all_iff)
      ultimately show ?thesis by simp
    qed
    with b show ?thesis by blast
  qed
  show ?thesis
    using rows by (simp add: n length_join_pairs_product length_join_pairs_left length_join_pairs_right)
qed

theorem merge_rows_witness:
  "id_cols ach_scenario bg_scenario \<noteq> [] \<and>
   merge_step ach_scenario bg_scenario = Inr merged_scenario \<and>
   distinct_keys ach_scenario (id_cols ach_scenario bg_scenario) \<and>
   distinct_keys bg_scenario (id_cols ach_scenario bg_scenario) \<and>
   nrows merged_scenario \<le> nrows ach_scenario * nrows bg_scenario \<and>
   nrows merged_scenario \<le> nrows ach_scenario \<and>
   nrows merged_scenario \<le> nrows bg_scenario \<and>
   (\<exists>i<nrows ach_scenario. \<exists>j<nrows bg_scenario.
      column merged_scenario ''ID1'' ! 1 = column ach_scenario ''ID1'' ! i \<and>
      column merged_scenario ''ID1'' ! 1 = column bg_scenario ''ID1'' ! j)"
proof -
  have h1: "id_cols ach_scenario bg_scenario \<noteq> []"
    by (simp add: id_cols_scenario)
  have h2: "merge_step ach_scenario bg_scenario = Inr merged_scenario"
    by (simp add: raw_defs ach_scenario_def bg_scenario_def merged_scenario_def)
  have d1: "distinct_keys ach_scenario (id_cols ach_scenario bg_scenario)"
    unfolding id_cols_scenario
    by (simp add: distinct_keys_def key_tuple_def column_def ach_scenario_def upt_rec)
  have d2: "distinct_keys bg_scenario (id_cols ach_scenario bg_scenario)"
    unfolding id_cols_scenario
    by (simp add: distinct_keys_def key_tuple_def column_def bg_scenario_def upt_rec)
  have r: "(1::nat) < nrows merged_scenario"
    by (simp add: merged_scenario_def)
  note t = merge_rows [OF h1 h2]
  from t r have "\<exists>i<nrows ach_scenario. \<exists>j<nrows bg_scenario.
      \<forall>k\<in>set (id_cols ach_scenario bg_scenario).
        column merged_scenario k ! 1 = column ach_scenario k ! i \<and>
        column merged_scenario k ! 1 = column bg_scenario k ! j"
    by blast
  then have e: "\<exists>i<nrows ach_scenario. \<exists>j<nrows bg_scenario.
      column merged_scenario ''ID1'' ! 1 = column ach_scenario ''ID1'' ! i \<and>
      column merged_scenario ''ID1'' ! 1 = column bg_scenario ''ID1'' ! j"
    by (simp add: id_cols_scenario)
  from t d1 d2 have "nrows merged_scenario \<le> nrows ach_scenario * nrows bg_scenario"
    and "nrows merged_scenario \<le> nrows ach_scenario"
    and "nrows merged_scenario \<le> nrows bg_scenario"
    by blast+
  with h1 h2 d1 d2 e show ?thesis by blast
qed

text \<open>The claim as stated fails: with the identifier 1 twice in each table the merge
  has four rows, more than either table.\<close>

theorem duplicate_keys_counterexample:
  "id_cols ach_dup bg_dup = [''IDSTUD''] \<and>
   merge_step ach_dup bg_dup =
     Inr \<lparr> nrows = 4,
           cols = [(''IDSTUD'', [Some 1, Some 1, Some 1, Some 1]),
                   (''BSMMAT01'', [Some 500, Some 500, Some 510, Some 510]),
                   (''BSBG01'', [Some 1, Some 2, Some 1, Some 2])] \<rparr> \<and>
   \<not> (4 \<le> min (nrows ach_dup) (nrows bg_dup))"
  by (simp add: raw_defs ach_dup_def bg_dup_def)

subsection \<open>The composite score of a student\<close>






















subsection \<open>The loader\<close>

lemma csv_paths:
  "py_endswith student_csv ''.csv''"
  "py_endswith ''../data/teacher_data.csv'' ''.csv''"
  "py_endswith ''../data/school_data.csv'' ''.csv''"
  by (simp_all add: py_endswith_def student_csv_def)

lemma sav_paths_endswith:
  "\<not> py_endswith ''../orig/SPSS/bsairlm8.sav'' ''.csv''"
  "\<not> py_endswith ''../orig/SPSS/bsgirlm8.sav'' ''.csv''"
  "\<not> py_endswith ''../orig/SPSS/btmirlm8.sav'' ''.csv''"
  "\<not> py_endswith ''../orig/SPSS/bcgirlm8.sav'' ''.csv''"
  by (simp_all add: py_endswith_def)

lemma sav_paths_replace:
  "py_replace ''../orig/SPSS/bsairlm8.sav'' ''.csv'' ''.sav'' = ''../orig/SPSS/bsairlm8.sav''"
  "py_replace ''../orig/SPSS/bsgirlm8.sav'' ''.csv'' ''.sav'' = ''../orig/SPSS/bsgirlm8.sav''"
  "py_replace ''../orig/SPSS/btmirlm8.sav'' ''.csv'' ''.sav'' = ''../orig/SPSS/btmirlm8.sav''"
  "py_replace ''../orig/SPSS/bcgirlm8.sav'' ''.csv'' ''.sav'' = ''../orig/SPSS/bcgirlm8.sav''"
  by (simp_all add: py_replace_def)

lemma load_data_csv:
  "py_endswith p ''.csv'' \<Longrightarrow> fst (load_data env p) = csv_table env p"
  by (simp add: load_data_def load_data_body_def csv_table_def split: sum.splits)

lemma load_data_sav:
  "\<not> py_endswith p ''.csv'' \<Longrightarrow> py_replace p ''.csv'' ''.sav'' = p \<Longrightarrow>
   fst (load_data env p) = sav_table env p"
  by (simp add: load_data_def load_data_body_def sav_table_def split: sum.splits)

text \<open>
  Claim C6. For every path, \<open>load_data\<close> returns a table and shows nothing, or
  returns \<open>None\<close> and shows one error message; an exception raised inside it is caught
  there, so none reaches the caller. With the existence checks around it, each of the
  three tables is the flat file's when the flat file exists, and otherwise the
  statistical-package file's (for the student table, the merge of the two raw files).
\<close>

theorem loader_contract:
  "((\<exists>df. load_data env p = (Some df, [])) \<or> (\<exists>msg. load_data env p = (None, [Error msg]))) \<and>
   (path_exists env student_csv \<longrightarrow>
      fst (load_student lib env) = Inr (csv_table env student_csv)) \<and>
   (\<not> path_exists env student_csv \<longrightarrow>
      fst (load_student lib env) =
        (case raw_path lib (sav_table env ''../orig/SPSS/bsairlm8.sav'')
                       (sav_table env ''../orig/SPSS/bsgirlm8.sav'') of
           Inl e \<Rightarrow> Inl e | Inr student_data \<Rightarrow> Inr (Some student_data))) \<and>
   fst (load_teacher env) =
     (if path_exists env ''../data/teacher_data.csv''
      then csv_table env ''../data/teacher_data.csv''
      else sav_table env ''../orig/SPSS/btmirlm8.sav'') \<and>
   fst (load_school env) =
     (if path_exists env ''../data/school_data.csv''
      then csv_table env ''../data/school_data.csv''
      else sav_table env ''../orig/SPSS/bcgirlm8.sav'')"
proof -
  have total: "(\<exists>df. load_data env p = (Some df, [])) \<or> (\<exists>msg. load_data env p = (None, [Error msg]))"
    by (auto simp: load_data_def load_data_body_def split: sum.splits)
  have student_csv: "fst (load_student lib env) = Inr (csv_table env student_csv)"
    if "path_exists env student_csv"
    using that by (simp add: load_student_def load_data_csv csv_paths)
  have student_raw: "fst (load_student lib env) =
        (case raw_path lib (sav_table env ''../orig/SPSS/bsairlm8.sav'')
                       (sav_table env ''../orig/SPSS/bsgirlm8.sav'') of
           Inl e \<Rightarrow> Inl e | Inr student_data \<Rightarrow> Inr (Some student_data))"
    if "\<not> path_exists env student_csv"
    using that
    by (simp add: load_student_def Let_def load_data_sav sav_paths_endswith sav_paths_replace)
  have teacher: "fst (load_teacher env) =
     (if path_exists env ''../data/teacher_data.csv''
      then csv_table env ''../data/teacher_data.csv''
      else sav_table env ''../orig/SPSS/btmirlm8.sav'')"
    by (simp add: load_teacher_def load_data_csv load_data_sav csv_paths sav_paths_endswith
        sav_paths_replace)
  have school: "fst (load_school env) =
     (if path_exists env ''../data/school_data.csv''
      then csv_table env ''../data/school_data.csv''
      else sav_table env ''../orig/SPSS/bcgirlm8.sav'')"
    by (simp add: load_school_def load_data_csv load_data_sav csv_paths sav_paths_endswith
        sav_paths_replace)
  from total student_csv student_raw teacher school show ?thesis
    by blast
qed

theorem loader_contract_witness:
  "path_exists env_csv student_csv \<and>
   fst (load_student lib_exact env_csv) = Inr (Some sd_with_items) \<and>
   fst (load_teacher env_csv) = None \<and>
   fst (load_school env_csv) = None"
proof -
  have h: "path_exists env_csv student_csv"
    by (simp add: env_csv_def)
  have t: "\<not> path_exists env_csv ''../data/teacher_data.csv''"
    "\<not> path_exists env_csv ''../data/school_data.csv''"
    by (simp_all add: env_csv_def student_csv_def)
  have c: "csv_table env_csv student_csv = Some sd_with_items"
    by (simp add: csv_table_def env_csv_def)
  have s: "sav_table env_csv ''../orig/SPSS/btmirlm8.sav'' = None"
    "sav_table env_csv ''../orig/SPSS/bcgirlm8.sav'' = None"
    by (simp_all add: sav_table_def env_csv_def)
  show ?thesis
    using loader_contract [where env = env_csv and p = student_csv and lib = lib_exact] h t c s by simp
qed

subsection \<open>Running commands\<close>

lemma andthen_emit: "andthen (emit e) f s = f () (s\<lparr> out := out s @ [e] \<rparr>)"
  by (simp add: andthen_def emit_def)

lemma andthen_step:
  "m s = (Inr a, s') \<Longrightarrow> andthen m f s = f a s'"
  "m s = (Inl e, s') \<Longrightarrow> andthen m f s = (Inl e, s')"
  by (simp_all add: andthen_def)

lemma with_frame_DataFrame: "heap s ! r = DataFrame df \<Longrightarrow> with_frame r e f s = f df s"
  by (simp add: with_frame_def)

lemma df_len_frame: "heap s ! r = DataFrame df \<Longrightarrow> df_len r s = (Inr (nrows df), s)"
  by (simp add: df_len_def with_frame_DataFrame return_def)

lemma df_columns_frame: "heap s ! r = DataFrame df \<Longrightarrow> df_columns r s = (Inr (columns df), s)"
  by (simp add: df_columns_def with_frame_DataFrame return_def)

lemma df_getitem_frame:
  "heap s ! r = DataFrame df \<Longrightarrow>
   df_getitem r c s = (if c \<in> set (columns df) then (Inr (column df c), s) else (Inl KeyError, s))"
  by (simp add: df_getitem_def with_frame_DataFrame return_def raise_def)

lemma wf_column_length:
  assumes "wf_frame df" and "c \<in> set (columns df)"
  shows "length (column df c) = nrows df"
proof -
  from assms(2) obtain vs where vs: "(c, vs) \<in> set (cols df)"
    by (auto simp: columns_def)
  with assms(1) have "map_of (cols df) c = Some vs"
    by (simp add: wf_frame_def columns_def)
  moreover from assms(1) vs have "length vs = nrows df"
    by (auto simp: wf_frame_def list_all_iff)
  ultimately show ?thesis
    by (simp add: column_def)
qed

lemma fst_andthen_Inl: "fst (m s) = Inl e \<Longrightarrow> fst (andthen m f s) = Inl e"
  by (cases "m s") (simp add: andthen_def)

lemma run_all_append:
  "run_all (xs @ ys) s =
     (case run_all xs s of (Inl e, s') \<Rightarrow> (Inl e, s') | (Inr u, s') \<Rightarrow> run_all ys s')"
proof (induction xs arbitrary: s)
  case Nil
  then show ?case by (simp add: return_def)
next
  case (Cons c xs)
  show ?case
  proof (cases "c s")
    case (Pair res s')
    then show ?thesis
      by (cases res) (simp_all add: andthen_def Cons.IH)
  qed
qed

lemma columns_dropna_frame: "columns (dropna_frame df names) = columns df"
  by (simp add: dropna_frame_def columns_def Let_def comp_def)

lemmas cmd_defs =
  andthen_def df_columns_def with_frame_def return_def raise_def df_dropna_def alloc_def
  df_getitem_def emit_def sns_plot_def ax_pie_def sns_histplot_def df_len_def

lemmas page_defs =
  render_def overview_def student_factors_def teacher_factors_def school_context_def
  attitude_vars_def gender_block_def books_block_def attitude_block_def counts_block_def
  andthen_def df_columns_def with_frame_def return_def raise_def df_dropna_def alloc_def
  df_getitem_def emit_def sns_plot_def ax_pie_def sns_histplot_def df_len_def
  df_value_counts_frame_def df_set_columns_def lib_exact_def
  df_groupby_agg_def df_groupby_mean_def st_dataframe_def Let_def columns_def

text \<open>Dropping rows gives a new object and leaves the old one; assigning the column
  names changes the object itself.\<close>

lemma df_dropna_new_object:
  "heap s ! r = DataFrame df \<Longrightarrow> list_all (\<lambda>c. c \<in> set (columns df)) names \<Longrightarrow>
   df_dropna r names s =
     (Inr (length (heap s)), s\<lparr> heap := heap s @ [DataFrame (dropna_frame df names)] \<rparr>)"
  by (simp add: df_dropna_def with_frame_def alloc_def)

lemma df_set_columns_changes_object:
  "heap (snd (df_set_columns 0 [''Years of Experience'']
                \<lparr> heap = [DataFrame \<lparr> nrows = 0, cols = [(''BTBG01'', [])] \<rparr>], out = [] \<rparr>)) ! 0
   = DataFrame \<lparr> nrows = 0, cols = [(''Years of Experience'', [])] \<rparr>"
  by (simp add: df_set_columns_def with_frame_def)

subsection \<open>The Overview page on an empty table\<close>

text \<open>
  Claim C8. For a student table without rows that has the column \<open>math_score\<close>, the
  Overview page runs to its end: it shows the student count 0, the mean and the median
  as NaN, and the histogram and the explanation after them.
\<close>

theorem overview_empty_table:
  assumes "heap s ! student_data = DataFrame df"
    and "wf_frame df" and "nrows df = 0" and "''math_score'' \<in> set (columns df)"
  shows "render lib Overview student_data teacher_data school_data s =
           (Inr (),
            s\<lparr> out := out s @
                 [Title ''Mathematics Performance Overview'',
                  Metric ''Number of Students'' (Count 0),
                  Metric ''Average Math Score'' (Number None),
                  Metric ''Median Math Score'' (Number None),
                  Subheader ''Distribution of Math Scores'',
                  Pyplot Histogram ''Distribution of Mathematics Scores with TIMSS Benchmarks'',
                  Markdown ''**TIMSS Benchmarks:**''] \<rparr>)"
proof -
  have "length (column df ''math_score'') = 0"
    using assms by (simp add: wf_column_length)
  then have c: "column df ''math_score'' = []" by simp
  show ?thesis
    using assms(1,3,4)
    by (simp add: render_def overview_def andthen_emit andthen_step df_len_frame
        df_getitem_frame c nanmean_def nanmedian_def present_def sns_histplot_def emit_def
        return_def)
qed

theorem overview_empty_table_witness:
  "heap \<lparr> heap = [DataFrame empty_students], out = [] \<rparr> ! 0 = DataFrame empty_students \<and>
   wf_frame empty_students \<and> nrows empty_students = 0 \<and>
   ''math_score'' \<in> set (columns empty_students) \<and>
   render lib_exact Overview 0 1 2 \<lparr> heap = [DataFrame empty_students], out = [] \<rparr> =
     (Inr (),
      \<lparr> heap = [DataFrame empty_students],
        out = [Title ''Mathematics Performance Overview'',
               Metric ''Number of Students'' (Count 0),
               Metric ''Average Math Score'' (Number None),
               Metric ''Median Math Score'' (Number None),
               Subheader ''Distribution of Math Scores'',
               Pyplot Histogram ''Distribution of Mathematics Scores with TIMSS Benchmarks'',
               Markdown ''**TIMSS Benchmarks:**''] \<rparr>)"
proof -
  have h1: "heap \<lparr> heap = [DataFrame empty_students], out = [] \<rparr> ! 0 = DataFrame empty_students"
    by simp
  have h2: "wf_frame empty_students"
    by (simp add: wf_frame_def empty_students_def columns_def)
  have h3: "nrows empty_students = 0"
    by (simp add: empty_students_def)
  have h4: "''math_score'' \<in> set (columns empty_students)"
    by (simp add: empty_students_def columns_def)
  show ?thesis
    using h1 h2 h3 h4 overview_empty_table [OF h1 h2 h3 h4, where lib = lib_exact and teacher_data = 1 and school_data = 2] by simp
qed

text \<open>The histogram is drawn by the plotting library, which the script does not control:
  on a table with scores that the library refuses, the page stops at line 98. A table
  without rows gives the library nothing to refuse.\<close>

lemma overview_histplot_raises:
  assumes "heap s ! student_data = DataFrame df" and "''math_score'' \<in> set (columns df)"
    and "column df ''math_score'' \<noteq> []"
    and "\<not> draws lib Histogram [column df ''math_score'']"
  shows "fst (render lib Overview student_data teacher_data school_data s) = Inl ValueError"
  using assms
  by (simp add: render_def overview_def andthen_def emit_def df_len_frame df_getitem_frame
      sns_histplot_def raise_def)

subsection \<open>The pages leave the loaded tables as they are\<close>

lemma heap_kept_weaken: "heap_kept n m P \<Longrightarrow> (\<And>a. P a \<Longrightarrow> Q a) \<Longrightarrow> heap_kept n m Q"
  by (simp add: heap_kept_def)

lemma heap_kept_return: "Q a \<Longrightarrow> heap_kept n (return a) Q"
  by (simp add: heap_kept_def return_def)

lemma heap_kept_raise: "heap_kept n (raise e) Q"
  by (simp add: heap_kept_def raise_def)

lemma heap_kept_emit: "Q () \<Longrightarrow> heap_kept n (emit e) Q"
  by (simp add: heap_kept_def emit_def)

lemma heap_kept_alloc: "heap_kept n (alloc ob) (\<lambda>r. n \<le> r)"
  by (simp add: heap_kept_def alloc_def)

lemma heap_kept_with_frame: "(\<And>df. heap_kept n (f df) Q) \<Longrightarrow> heap_kept n (with_frame r e f) Q"
  by (auto simp: heap_kept_def with_frame_def raise_def split: pyobj.splits)

lemma heap_kept_andthen:
  assumes "heap_kept n m P" and "\<And>a. P a \<Longrightarrow> heap_kept n (f a) Q"
  shows "heap_kept n (andthen m f) Q"
  unfolding heap_kept_def
proof (intro allI impI)
  fix s :: rstate assume n: "n \<le> length (heap s)"
  obtain res s' where ms: "m s = (res, s')" by (cases "m s")
  from assms(1) n ms have 1: "n \<le> length (heap s')" "take n (heap s') = take n (heap s)"
    and P: "\<And>a. res = Inr a \<Longrightarrow> P a"
    by (auto simp: heap_kept_def)
  show "n \<le> length (heap (snd (andthen m f s))) \<and>
        take n (heap (snd (andthen m f s))) = take n (heap s) \<and>
        (\<forall>a. fst (andthen m f s) = Inr a \<longrightarrow> Q a)"
  proof (cases res)
    case (Inl e)
    with ms 1 show ?thesis by (simp add: andthen_def)
  next
    case (Inr a)
    with P have "heap_kept n (f a) Q" by (simp add: assms(2))
    with 1 have "n \<le> length (heap (snd (f a s')))"
      "take n (heap (snd (f a s'))) = take n (heap s)"
      "\<And>b. fst (f a s') = Inr b \<Longrightarrow> Q b"
      by (auto simp: heap_kept_def)
    with ms Inr show ?thesis by (simp add: andthen_def)
  qed
qed

lemma heap_kept_set_columns: "n \<le> r \<Longrightarrow> heap_kept n (df_set_columns r names) (\<lambda>_. True)"
  by (auto simp: heap_kept_def df_set_columns_def with_frame_def raise_def split: pyobj.splits)

lemma heap_kept_run_all:
  "(\<And>c. c \<in> set cs \<Longrightarrow> heap_kept n c (\<lambda>_. True)) \<Longrightarrow> heap_kept n (run_all cs) (\<lambda>_. True)"
  by (induction cs) (auto intro: heap_kept_return heap_kept_andthen)

lemma heap_kept_df_len: "heap_kept n (df_len r) (\<lambda>_. True)"
  unfolding df_len_def by (intro heap_kept_with_frame heap_kept_return) simp

lemma heap_kept_df_columns: "heap_kept n (df_columns r) (\<lambda>_. True)"
  unfolding df_columns_def by (intro heap_kept_with_frame heap_kept_return) simp

lemma heap_kept_df_getitem: "heap_kept n (df_getitem r c) (\<lambda>_. True)"
  unfolding df_getitem_def
  by (intro heap_kept_with_frame) (simp add: heap_kept_return heap_kept_raise)

lemma heap_kept_sns_plot: "heap_kept n (sns_plot lib kind r x y) (\<lambda>_. True)"
  unfolding sns_plot_def
  by (intro heap_kept_with_frame) (simp add: heap_kept_return heap_kept_raise)

lemma heap_kept_ax_pie: "heap_kept n (ax_pie lib counts) (\<lambda>_. True)"
  by (simp add: ax_pie_def heap_kept_return heap_kept_raise)

lemma heap_kept_sns_histplot: "heap_kept n (sns_histplot lib series) (\<lambda>_. True)"
  by (simp add: sns_histplot_def heap_kept_return heap_kept_raise)

lemma heap_kept_st_dataframe: "heap_kept n (st_dataframe r) (\<lambda>_. True)"
  unfolding st_dataframe_def by (intro heap_kept_with_frame heap_kept_emit) simp

lemma heap_kept_df_dropna: "heap_kept n (df_dropna r names) (\<lambda>r'. n \<le> r')"
  unfolding df_dropna_def
  by (intro heap_kept_with_frame) (simp add: heap_kept_alloc heap_kept_raise)

lemma heap_kept_df_groupby_agg: "heap_kept n (df_groupby_agg lib r by c) (\<lambda>r'. n \<le> r')"
  unfolding df_groupby_agg_def
  by (intro heap_kept_with_frame) (simp add: heap_kept_alloc heap_kept_raise)

lemma heap_kept_df_groupby_mean: "heap_kept n (df_groupby_mean lib r by c) (\<lambda>r'. n \<le> r')"
  unfolding df_groupby_mean_def
  by (intro heap_kept_with_frame) (simp add: heap_kept_alloc heap_kept_raise)

lemma heap_kept_df_value_counts_frame: "heap_kept n (df_value_counts_frame r var) (\<lambda>r'. n \<le> r')"
  unfolding df_value_counts_frame_def
  by (rule heap_kept_andthen [OF heap_kept_df_getitem]) (rule heap_kept_alloc)

lemma heap_kept_emit_unit: "heap_kept n (emit e) (\<lambda>_. True)"
  by (simp add: heap_kept_emit)

lemma heap_kept_if:
  "heap_kept n a Q \<Longrightarrow> heap_kept n b Q \<Longrightarrow> heap_kept n (if c then a else b) Q"
  by simp

lemma heap_kept_case_option:
  "heap_kept n a Q \<Longrightarrow> (\<And>v. heap_kept n (f v) Q) \<Longrightarrow>
   heap_kept n (case x of None \<Rightarrow> a | Some v \<Rightarrow> f v) Q"
  by (cases x) simp_all

lemmas heap_kept_steps =
  heap_kept_andthen [OF heap_kept_df_columns]
  heap_kept_andthen [OF heap_kept_df_len]
  heap_kept_andthen [OF heap_kept_df_getitem]
  heap_kept_andthen [OF heap_kept_sns_plot]
  heap_kept_andthen [OF heap_kept_ax_pie]
  heap_kept_andthen [OF heap_kept_sns_histplot]
  heap_kept_andthen [OF heap_kept_emit_unit]
  heap_kept_andthen [OF heap_kept_df_dropna]
  heap_kept_andthen [OF heap_kept_df_groupby_agg]
  heap_kept_andthen [OF heap_kept_df_groupby_mean]
  heap_kept_andthen [OF heap_kept_df_value_counts_frame]
  heap_kept_andthen [OF heap_kept_set_columns]
  heap_kept_emit_unit heap_kept_st_dataframe heap_kept_if heap_kept_case_option

lemma heap_kept_gender_block: "heap_kept n (gender_block lib r) (\<lambda>_. True)"
  unfolding gender_block_def Let_def by (intro heap_kept_steps; assumption?)

lemma heap_kept_books_block: "heap_kept n (books_block lib r) (\<lambda>_. True)"
  unfolding books_block_def Let_def by (intro heap_kept_steps; assumption?)

lemma heap_kept_attitude_block: "heap_kept n (attitude_block lib r vl) (\<lambda>_. True)"
  unfolding attitude_block_def by (intro heap_kept_steps; assumption?)

lemma heap_kept_counts_block: "heap_kept n (counts_block lib r name xlabel title msg) (\<lambda>_. True)"
  unfolding counts_block_def Let_def by (intro heap_kept_steps; assumption?)

lemma heap_kept_page_blocks:
  "c \<in> set (page_blocks lib p sd td cd) \<Longrightarrow> heap_kept n c (\<lambda>_. True)"
  by (cases p)
    (auto simp: overview_def student_factors_def teacher_factors_def school_context_def
      heap_kept_gender_block heap_kept_books_block heap_kept_attitude_block
      heap_kept_counts_block heap_kept_emit_unit
      intro!: heap_kept_steps)

lemma heap_kept_render: "heap_kept n (render lib p sd td cd) (\<lambda>_. True)"
  unfolding render_def by (rule heap_kept_run_all) (rule heap_kept_page_blocks)

lemma run_all_keeps_object:
  assumes "\<And>c. c \<in> set cs \<Longrightarrow> heap_kept (length (heap s)) c (\<lambda>_. True)"
    and "r < length (heap s)"
  shows "heap (snd (run_all cs s)) ! r = heap s ! r"
proof -
  have "heap_kept (length (heap s)) (run_all cs) (\<lambda>_. True)"
    using assms(1) by (rule heap_kept_run_all)
  then have "take (length (heap s)) (heap (snd (run_all cs s))) = heap s"
    by (simp add: heap_kept_def)
  with assms(2) show ?thesis
    by (metis nth_take)
qed

text \<open>
  Claim C9. Whatever page is rendered, and whether it runs to its end or raises, every
  object that existed before (the three loaded tables among them) is the same
  afterwards: rows are dropped and groups are formed in new objects, and column names
  are assigned only to those. A page is determined by the one table it reads: the other
  two variables do not enter it.
\<close>

theorem pages_leave_tables_unchanged:
  "length (heap s) \<le> length (heap (snd (render lib p student_data teacher_data school_data s))) \<and>
   take (length (heap s)) (heap (snd (render lib p student_data teacher_data school_data s))) = heap s \<and>
   (\<forall>r < length (heap s).
      heap (snd (render lib p student_data teacher_data school_data s)) ! r = heap s ! r) \<and>
   (page_table p student_data teacher_data school_data = page_table p sd' td' cd' \<longrightarrow>
      render lib p student_data teacher_data school_data = render lib p sd' td' cd')"
proof -
  have k: "length (heap s) \<le> length (heap (snd (render lib p student_data teacher_data school_data s)))"
    "take (length (heap s)) (heap (snd (render lib p student_data teacher_data school_data s))) = heap s"
    using heap_kept_render [of "length (heap s)" lib p student_data teacher_data school_data]
    by (simp_all add: heap_kept_def)
  have n: "\<forall>r < length (heap s).
      heap (snd (render lib p student_data teacher_data school_data s)) ! r = heap s ! r"
    using k(2) by (metis nth_take)
  have d: "page_table p student_data teacher_data school_data = page_table p sd' td' cd' \<longrightarrow>
      render lib p student_data teacher_data school_data = render lib p sd' td' cd'"
    by (cases p) (simp_all add: render_def)
  show ?thesis
    by (intro conjI k n d)
qed

theorem pages_leave_tables_unchanged_witness:
  "heap (snd (render lib_exact StudentFactors 0 1 2 s_demo)) ! 0 = DataFrame sd_with_items \<and>
   heap (snd (render lib_exact StudentFactors 0 1 2 s_demo)) ! 1 = DataFrame teachers_demo \<and>
   heap (snd (render lib_exact StudentFactors 0 1 2 s_demo)) ! 2 = DataFrame schools_demo \<and>
   render lib_exact TeacherFactors 0 1 2 = render lib_exact TeacherFactors 7 1 9"
proof -
  note t = pages_leave_tables_unchanged [of s_demo lib_exact StudentFactors 0 1 2 0 1 2]
  have l: "length (heap s_demo) = 3"
    by (simp add: s_demo_def)
  from t [unfolded l]
  have "\<forall>r<3. heap (snd (render lib_exact StudentFactors 0 1 2 s_demo)) ! r = heap s_demo ! r"
    by (elim conjE)
  then have "heap (snd (render lib_exact StudentFactors 0 1 2 s_demo)) ! 0 = heap s_demo ! 0"
    and "heap (snd (render lib_exact StudentFactors 0 1 2 s_demo)) ! 1 = heap s_demo ! 1"
    and "heap (snd (render lib_exact StudentFactors 0 1 2 s_demo)) ! 2 = heap s_demo ! 2"
    by simp_all
  moreover have "render lib_exact TeacherFactors 0 1 2 = render lib_exact TeacherFactors 7 1 9"
    using pages_leave_tables_unchanged [of s_demo lib_exact TeacherFactors 0 1 2 7 1 9] by simp
  ultimately show ?thesis
    by (simp add: s_demo_def)
qed

subsection \<open>A missing variable\<close>

lemma gender_block_absent:
  "heap s ! r = DataFrame df \<Longrightarrow> ''BSBG01'' \<notin> set (columns df) \<Longrightarrow>
   ''ITSEX'' \<notin> set (columns df) \<Longrightarrow>
   gender_block lib r s = (Inr (), s\<lparr> out := out s @ [Warning ''Gender variable not found in the dataset''] \<rparr>)"
  by (simp add: gender_block_def Let_def andthen_step df_columns_frame emit_def)

lemma books_block_absent:
  "heap s ! r = DataFrame df \<Longrightarrow> ''BSBG04'' \<notin> set (columns df) \<Longrightarrow>
   books_block lib r s = (Inr (), s\<lparr> out := out s @ [Warning ''Books at home variable not found in the dataset''] \<rparr>)"
  by (simp add: books_block_def Let_def andthen_step df_columns_frame emit_def)

lemma attitude_block_absent:
  "heap s ! r = DataFrame df \<Longrightarrow> v \<notin> set (columns df) \<Longrightarrow>
   attitude_block lib r (v, l) s = (Inr (), s\<lparr> out := out s @ [Warning (l @ '' variable not found in the dataset'')] \<rparr>)"
  by (simp add: attitude_block_def andthen_step df_columns_frame emit_def)

lemma counts_block_absent:
  "heap s ! r = DataFrame df \<Longrightarrow> name \<notin> set (columns df) \<Longrightarrow>
   counts_block lib r name xlabel title msg s = (Inr (), s\<lparr> out := out s @ [Warning msg] \<rparr>)"
  by (simp add: counts_block_def Let_def andthen_step df_columns_frame emit_def)

lemma guard_position:
  "(k, names, msg) \<in> set (guards p) \<Longrightarrow> k < length (page_blocks lib p sd td cd)"
  by (cases p)
    (auto simp: overview_def student_factors_def teacher_factors_def school_context_def
      attitude_vars_def)

lemma guarded_block_absent:
  assumes "(k, names, msg) \<in> set (guards p)"
    and "heap s ! page_table p sd td cd = DataFrame df"
    and "\<forall>v\<in>set names. v \<notin> set (columns df)"
  shows "(page_blocks lib p sd td cd ! k) s = (Inr (), s\<lparr> out := out s @ [Warning msg] \<rparr>)"
proof (cases p)
  case Overview
  with assms(1) show ?thesis by simp
next
  case StudentFactors
  with assms show ?thesis
    by (auto simp: student_factors_def attitude_vars_def gender_block_absent books_block_absent
        attitude_block_absent)
next
  case TeacherFactors
  with assms show ?thesis
    by (auto simp: teacher_factors_def counts_block_absent)
next
  case SchoolContext
  with assms show ?thesis
    by (auto simp: school_context_def counts_block_absent)
qed

text \<open>
  Claim C7, as amended. For every page and every variable the page guards (gender with
  its alternate name, books at home, the two attitude scales, teacher experience and
  education, school location, economic disadvantage and academic emphasis): when the
  variable is absent from the page's table and the statements before its section have
  run without raising, the section shows its fixed warning and nothing else, and the
  page goes on with the statements after it.
\<close>

theorem missing_variable_fallback:
  assumes "page_table p sd td cd < length (heap s)"
    and "heap s ! page_table p sd td cd = DataFrame df"
    and "(k, names, msg) \<in> set (guards p)"
    and "\<forall>v\<in>set names. v \<notin> set (columns df)"
    and "run_all (take k (page_blocks lib p sd td cd)) s = (Inr (), s1)"
  shows "(page_blocks lib p sd td cd ! k) s1 = (Inr (), s1\<lparr> out := out s1 @ [Warning msg] \<rparr>) \<and>
         render lib p sd td cd s =
           run_all (drop (Suc k) (page_blocks lib p sd td cd)) (s1\<lparr> out := out s1 @ [Warning msg] \<rparr>)"
proof -
  let ?bs = "page_blocks lib p sd td cd"
  have k: "k < length ?bs"
    using assms(3) by (rule guard_position)
  have "heap (snd (run_all (take k ?bs) s)) ! page_table p sd td cd = heap s ! page_table p sd td cd"
    using assms(1)
    by (intro run_all_keeps_object) (auto dest: in_set_takeD intro: heap_kept_page_blocks)
  with assms(2,5) have tab: "heap s1 ! page_table p sd td cd = DataFrame df"
    by simp
  have blk: "(?bs ! k) s1 = (Inr (), s1\<lparr> out := out s1 @ [Warning msg] \<rparr>)"
    using assms(3) tab assms(4) by (rule guarded_block_absent)
  have "render lib p sd td cd s = run_all (take k ?bs @ ?bs ! k # drop (Suc k) ?bs) s"
    using k by (simp add: render_def id_take_nth_drop [symmetric])
  also have "\<dots> = run_all (drop (Suc k) ?bs) (s1\<lparr> out := out s1 @ [Warning msg] \<rparr>)"
    by (simp add: run_all_append assms(5) andthen_def blk)
  finally show ?thesis
    using blk by simp
qed

theorem missing_variable_fallback_witness:
  "page_table TeacherFactors 0 1 2 < length (heap s_demo) \<and>
   heap s_demo ! page_table TeacherFactors 0 1 2 = DataFrame teachers_demo \<and>
   ''BTBG01'' \<notin> set (columns teachers_demo) \<and>
   run_all (take 3 (page_blocks lib_exact TeacherFactors 0 1 2)) s_demo =
     (Inr (), s_demo\<lparr> out := [Title ''Teacher and Instruction Factors'',
                             Subheader ''Teacher Demographics'',
                             WriteCount ''Number of teachers: '' 3] \<rparr>) \<and>
   render lib_exact TeacherFactors 0 1 2 s_demo =
     run_all (drop 4 (page_blocks lib_exact TeacherFactors 0 1 2))
       (s_demo\<lparr> out := [Title ''Teacher and Instruction Factors'',
                        Subheader ''Teacher Demographics'',
                        WriteCount ''Number of teachers: '' 3,
                        Warning ''Teacher experience variable not found in the dataset''] \<rparr>)"
proof -
  let ?s1 = "s_demo\<lparr> out := [Title ''Teacher and Instruction Factors'',
                             Subheader ''Teacher Demographics'',
                             WriteCount ''Number of teachers: '' 3] \<rparr>"
  have h1: "page_table TeacherFactors 0 1 2 < length (heap s_demo)"
    by (simp add: s_demo_def)
  have h2: "heap s_demo ! page_table TeacherFactors 0 1 2 = DataFrame teachers_demo"
    by (simp add: s_demo_def)
  have h3: "(3, [''BTBG01''], ''Teacher experience variable not found in the dataset'')
              \<in> set (guards TeacherFactors)"
    by simp
  have h4: "\<forall>v\<in>set [''BTBG01'']. v \<notin> set (columns teachers_demo)"
    by (simp add: teachers_demo_def columns_def)
  have h5: "run_all (take 3 (page_blocks lib_exact TeacherFactors 0 1 2)) s_demo = (Inr (), ?s1)"
    by (simp add: teacher_factors_def andthen_def emit_def df_len_def with_frame_def return_def
        s_demo_def teachers_demo_def numeral_3_eq_3)
  show ?thesis
    using h1 h2 h4 h5 missing_variable_fallback [OF h1 h2 h3 h4 h5] by simp
qed

text \<open>On the example the page shows the warning and then the next section's chart.\<close>

lemma teacher_page_output:
  "out (snd (render lib_exact TeacherFactors 0 1 2 s_demo)) =
     [Title ''Teacher and Instruction Factors'',
      Subheader ''Teacher Demographics'',
      WriteCount ''Number of teachers: '' 3,
      Warning ''Teacher experience variable not found in the dataset'',
      Subheader ''Teacher Preparation and Professional Development'',
      Pyplot Barplot ''Teacher Education Levels'']"
  by (simp add: s_demo_def teachers_demo_def page_defs counts_frame_def)

text \<open>
  The claim as stated fails for \<open>math_score\<close>, which no page guards. On a student
  table without it the Overview page raises after the student count and shows no
  warning; and the Student Factors page raises in the gender section, so that the books
  section never shows its warning although \<open>BSBG04\<close> is absent.
\<close>

theorem unguarded_math_score_counterexample:
  "''math_score'' \<notin> set (columns merged_scenario) \<and>
   render lib_exact Overview 0 1 2 s_noscore =
     (Inl KeyError,
      s_noscore\<lparr> out := [Title ''Mathematics Performance Overview'',
                         Metric ''Number of Students'' (Count 2)] \<rparr>) \<and>
   ''BSBG04'' \<notin> set (columns merged_scenario) \<and>
   fst (render lib_exact StudentFactors 0 1 2 s_noscore) = Inl ValueError \<and>
   out (snd (render lib_exact StudentFactors 0 1 2 s_noscore)) =
     [Title ''Student Background and Attitudes'',
      Subheader ''Gender and Mathematics Performance'',
      Pyplot Pie ''Gender Distribution'']"
  by (simp add: s_noscore_def merged_scenario_def page_defs dropna_frame_def)

subsection \<open>A processed file without the composite score\<close>

lemma gender_block_no_score:
  "heap s ! r = DataFrame df \<Longrightarrow> ''math_score'' \<notin> set (columns df) \<Longrightarrow>
   ''BSBG01'' \<in> set (columns df) \<or> ''ITSEX'' \<in> set (columns df) \<Longrightarrow>
   fst (gender_block lib r s) = Inl ValueError"
  by (auto simp: gender_block_def Let_def cmd_defs columns_dropna_frame)

lemma books_block_no_score:
  "heap s ! r = DataFrame df \<Longrightarrow> ''math_score'' \<notin> set (columns df) \<Longrightarrow>
   ''BSBG04'' \<in> set (columns df) \<Longrightarrow>
   fst (books_block lib r s) = Inl ValueError"
  by (auto simp: books_block_def Let_def cmd_defs columns_dropna_frame)

lemma attitude_block_no_score:
  "heap s ! r = DataFrame df \<Longrightarrow> ''math_score'' \<notin> set (columns df) \<Longrightarrow>
   v \<in> set (columns df) \<Longrightarrow>
   fst (attitude_block lib r (v, l) s) = Inl ValueError"
  by (auto simp: attitude_block_def cmd_defs columns_dropna_frame)

lemma overview_no_score:
  "heap s ! r = DataFrame df \<Longrightarrow> ''math_score'' \<notin> set (columns df) \<Longrightarrow>
   fst (render lib Overview r td cd s) = Inl KeyError"
  by (simp add: render_def overview_def andthen_def emit_def df_len_frame df_getitem_frame)

lemma student_factors_no_score:
  assumes h: "heap s ! r = DataFrame df" and n: "''math_score'' \<notin> set (columns df)"
  shows "fst (render lib StudentFactors r td cd s) =
           (if list_ex (\<lambda>v. v \<in> set (columns df)) student_vars then Inl ValueError else Inr ())"
proof -
  let ?g = "''BSBG01'' \<in> set (columns df) \<or> ''ITSEX'' \<in> set (columns df)"
  have page: "render lib StudentFactors r td cd s =
      (andthen (gender_block lib r) (\<lambda>_.
       andthen (emit (Subheader ''Home Educational Resources'')) (\<lambda>_.
       andthen (books_block lib r) (\<lambda>_.
       andthen (emit (Subheader ''Student Attitudes Toward Mathematics'')) (\<lambda>_.
       andthen (attitude_block lib r (''BSBGSLM'', ''Student Likes Mathematics'')) (\<lambda>_.
       andthen (attitude_block lib r (''BSBGSCM'', ''Student Confident in Mathematics'')) (\<lambda>_.
       return ())))))))
        (s\<lparr> out := out s @ [Title ''Student Background and Attitudes'',
                              Subheader ''Gender and Mathematics Performance''] \<rparr>)"
    by (simp add: render_def student_factors_def attitude_vars_def andthen_emit)
  show ?thesis
  proof (cases ?g)
    case True
    then show ?thesis
      using h n unfolding page
      by (auto simp: student_vars_def intro!: fst_andthen_Inl gender_block_no_score)
  next
    case g: False
    show ?thesis
    proof (cases "''BSBG04'' \<in> set (columns df)")
      case True
      then show ?thesis
        using h n g unfolding page
        by (simp add: student_vars_def andthen_step gender_block_absent andthen_emit
            fst_andthen_Inl books_block_no_score)
    next
      case b: False
      show ?thesis
      proof (cases "''BSBGSLM'' \<in> set (columns df)")
        case True
        then show ?thesis
          using h n g b unfolding page
          by (simp add: student_vars_def andthen_step gender_block_absent andthen_emit
              books_block_absent fst_andthen_Inl attitude_block_no_score)
      next
        case l: False
        show ?thesis
        proof (cases "''BSBGSCM'' \<in> set (columns df)")
          case True
          then show ?thesis
            using h n g b l unfolding page
            by (simp add: student_vars_def andthen_step gender_block_absent andthen_emit
                books_block_absent attitude_block_absent fst_andthen_Inl attitude_block_no_score)
        next
          case False
          then show ?thesis
            using h n g b l unfolding page
            by (simp add: student_vars_def andthen_step gender_block_absent andthen_emit
                books_block_absent attitude_block_absent return_def)
        qed
      qed
    qed
  qed
qed

lemma fst_run_all_footer: "fst (andthen c (\<lambda>_. run_all footer) s) = fst (c s)"
proof (cases "c s")
  case (Pair res s')
  then show ?thesis
    by (cases res) (simp_all add: andthen_def footer_def emit_def return_def)
qed

text \<open>
  Claim C10. When the processed student file exists, the student table is the file's
  table as read: the composite score is not computed. If that table has no column
  \<open>math_score\<close>, the Overview page raises \<open>KeyError\<close> at its first use of the
  column, and the Student Factors page raises \<open>ValueError\<close> in the first section
  whose variable is present (the plot that needs \<open>math_score\<close>); only when none of
  its variables is present does it run to its end, showing the warnings. No use of
  \<open>math_score\<close> has a fallback.
\<close>

theorem csv_without_math_score:
  assumes "path_exists env student_csv" and "read_csv env student_csv = Inr df"
    and "''math_score'' \<notin> set (columns df)"
  shows "load_student lib env = (Inr (Some df), []) \<and>
         fst (script lib env Overview) = Inl KeyError \<and>
         fst (script lib env StudentFactors) =
           (if list_ex (\<lambda>v. v \<in> set (columns df)) student_vars then Inl ValueError else Inr ())"
proof -
  have l: "load_student lib env = (Inr (Some df), [])"
    using assms(1,2)
    by (simp add: load_student_def load_data_def load_data_body_def csv_paths)
  have o: "fst (script lib env Overview) = Inl KeyError"
    using assms(3)
    by (simp add: script_def l Let_def fst_run_all_footer to_obj_def overview_no_score)
  have f: "fst (script lib env StudentFactors) =
           (if list_ex (\<lambda>v. v \<in> set (columns df)) student_vars then Inl ValueError else Inr ())"
    using assms(3)
    by (simp add: script_def l Let_def fst_run_all_footer to_obj_def student_factors_no_score)
  from l o f show ?thesis by simp
qed

theorem csv_without_math_score_witness:
  "path_exists env_noscore student_csv \<and>
   read_csv env_noscore student_csv = Inr merged_scenario \<and>
   ''math_score'' \<notin> set (columns merged_scenario) \<and>
   load_student lib_exact env_noscore = (Inr (Some merged_scenario), []) \<and>
   fst (script lib_exact env_noscore Overview) = Inl KeyError \<and>
   fst (script lib_exact env_noscore StudentFactors) = Inl ValueError"
proof -
  have h1: "path_exists env_noscore student_csv"
    by (simp add: env_noscore_def)
  have h2: "read_csv env_noscore student_csv = Inr merged_scenario"
    by (simp add: env_noscore_def)
  have h3: "''math_score'' \<notin> set (columns merged_scenario)"
    by (simp add: merged_scenario_def columns_def)
  have h4: "list_ex (\<lambda>v. v \<in> set (columns merged_scenario)) student_vars"
    by (simp add: merged_scenario_def columns_def student_vars_def)
  show ?thesis
    using h1 h2 h3 h4 csv_without_math_score [OF h1 h2 h3] by simp
qed

end
